theory Spec2Isabelle
  imports Main
begin

section \<open>The Claude API wrapper (lib/claude.ts) and the onboarding persistence helpers\<close>

text \<open>
  The TypeScript module wraps one call to the Anthropic messages API: \<open>chat\<close>,
  \<open>executeTool\<close>, \<open>continueWithToolResult\<close>, \<open>shouldEscalate\<close> and \<open>streamChat\<close>.
  JavaScript strings are modelled as \<open>string\<close> (lists of characters) where only the
  equality of characters matters, and as lists of UTF-16 code units where their case
  is mapped; values of type \<open>unknown\<close> are a type variable \<open>'j\<close>, thrown values a type
  variable \<open>'e\<close>. Everything the module does beyond returning a value (the requests
  sent to the backend, the console line, the tool execution) is recorded in an ordered
  log of effects.
\<close>

subsection \<open>Strings: startsWith, includes\<close>

text \<open>\<open>startsWith p s\<close>: the string \<open>s\<close> begins with \<open>p\<close>.\<close>

fun startsWith :: "'a list \<Rightarrow> 'a list \<Rightarrow> bool" where
  "startsWith [] s = True"
| "startsWith (p # ps) [] = False"
| "startsWith (p # ps) (c # cs) = (p = c \<and> startsWith ps cs)"

text \<open>
  \<open>String.prototype.includes\<close>: \<open>str_includes s t\<close> is \<open>s.includes(t)\<close>, true when \<open>t\<close>
  occurs in \<open>s\<close> at some position (the empty string occurs in every string).
\<close>

fun str_includes :: "'a list \<Rightarrow> 'a list \<Rightarrow> bool" where
  "str_includes [] t = startsWith t []"
| "str_includes (c # cs) t = (startsWith t (c # cs) \<or> str_includes cs t)"

subsection \<open>Messages, tool calls and the backend's types\<close>

text \<open>
  \<open>ChatMessage\<close> declares a string content; \<open>continueWithToolResult\<close> builds
  messages whose content is an array of blocks and casts them to \<open>ChatMessage\<close>, so a
  content is either of the two at run time.
\<close>

datatype role = User | Assistant

datatype 'j content_block =
    ToolUse string string 'j \<comment> \<open>type "tool use": id, name, input\<close>
  | ToolResult string "string option" \<comment> \<open>type "tool result": tool use id, content\<close>

datatype 'j message_content = Text string | Blocks "'j content_block list"

record 'j ChatMessage =
  role :: role
  content :: "'j message_content"

record 'j ToolCall =
  tc_id :: string
  tc_name :: string
  tc_input :: 'j

record 'j AgentResponse =
  ar_content :: string
  toolCalls :: "'j ToolCall list option"
  stopReason :: string

text \<open>
  The request of \<open>anthropic.messages.create\<close> and \<open>anthropic.messages.stream\<close>, with
  the keys the module sets; a key that is absent or \<open>undefined\<close> is \<open>None\<close>.
\<close>

record 'j MessageParam =
  mp_role :: role
  mp_content :: "'j message_content"

record 'j ToolDefinition =
  name :: string
  description :: string
  input_schema :: 'j

record 'j MessageCreateParams =
  p_model :: string
  p_max_tokens :: nat
  p_system :: string
  p_messages :: "'j MessageParam list"
  p_tools :: "'j ToolDefinition list option"

text \<open>
  The backend's answer: content blocks and a stop reason. A block is a text block, a
  tool-use block (id, name, input) or a block of another type; the stop reason is the
  string the backend sends.
\<close>

datatype 'j ContentBlock =
    TextBlock string
  | ToolUseBlock string string 'j
  | OtherBlock string

record 'j Message =
  m_content :: "'j ContentBlock list"
  stop_reason :: string

datatype delta = TextDelta string | OtherDelta string

datatype stream_event = ContentBlockDelta delta | OtherEvent string

subsection \<open>Effects, the platform and the module's state\<close>

text \<open>
  What the module does to the outside, in order: a request sent to the backend by
  \<open>anthropic.messages.create\<close> (one entry for each request sent), a call of
  \<open>anthropic.messages.stream\<close>, a line written with \<open>console.error\<close>, a tool executed.
\<close>

datatype ('e, 'j) effect =
    MessagesCreate "'j MessageCreateParams"
  | MessagesStream "'j MessageCreateParams"
  | ConsoleError string 'e
  | ExecuteToolCall string 'j

text \<open>
  What the module uses and does not define:
  \<^item> \<open>String(value)\<close> on the values of a client context;
  \<^item> \<open>JSON.stringify(value)\<close>, which returns a string or \<open>undefined\<close> (\<open>None\<close>), or throws
    (a BigInt, a cyclic structure, a \<open>toJSON\<close> that throws);
  \<^item> the regular-expression engine, for the patterns that are not one literal string;
  \<^item> \<open>toLowerCase\<close>, for the strings whose mapping is not written out below;
  \<^item> the network: \<open>http_post pf n params\<close> is the outcome of the \<open>n\<close>-th request that one
    call of \<open>anthropic.messages.create\<close> sends (an answer, or the error the SDK makes
    of a failure), and \<open>shouldRetry\<close> is the SDK's test whether a failed request is sent
    again (a connection error, a timeout, the statuses 408, 409, 429 and 5xx);
  \<^item> \<open>anthropic.messages.stream\<close>: the events delivered, and the error thrown after
    them, if any;
  \<^item> the tool implementations of \<open>@/agent/tools\<close>.
\<close>

record ('e, 'j) platform =
  String_of :: "'j \<Rightarrow> string"
  JSON_stringify :: "'j \<Rightarrow> 'e + string option"
  RegExp_replace :: "string \<Rightarrow> string \<Rightarrow> string \<Rightarrow> 'e + string"
  unicode_toLowerCase :: "nat list \<Rightarrow> nat list"
  http_post :: "nat \<Rightarrow> 'j MessageCreateParams \<Rightarrow> 'e + 'j Message"
  shouldRetry :: "'e \<Rightarrow> bool"
  messages_stream :: "'j MessageCreateParams \<Rightarrow> stream_event list \<times> 'e option"
  executeToolCall :: "string \<Rightarrow> 'j \<Rightarrow> 'e + 'j"

text \<open>
  \<open>agentConfig\<close> and \<open>toolDefinitions\<close> are imported from \<open>@/agent/config\<close>; the module
  reads three fields of the configuration. They are module-level objects, so they are
  part of the state, with the log of effects. The escalation triggers are lower-cased,
  so they are held as code units.
\<close>

record agent_config =
  systemPrompt :: string
  model :: string
  escalationTriggers :: "nat list list"

record ('e, 'j) world =
  agentConfig :: agent_config
  toolDefinitions :: "'j ToolDefinition list"
  effects :: "('e, 'j) effect list"

text \<open>
  \<^verbatim>\<open>
  const tools = toolDefinitions.map((tool: any) => ({
    name: tool.name,
    description: tool.description,
    input_schema: tool.input_schema,
  }));
  \<close>
\<close>

definition tools :: "('e, 'j) world \<Rightarrow> 'j ToolDefinition list" where
  "tools w =
     map (\<lambda>tool. \<lparr>name = name tool, description = description tool,
                  input_schema = input_schema tool\<rparr>) (toolDefinitions w)"

subsection \<open>String.prototype.toLowerCase\<close>

text \<open>
  A JavaScript string is a sequence of UTF-16 code units, here natural numbers;
  \<open>utf16\<close> reads a literal of ASCII characters as code units.
\<close>

definition utf16 :: "string \<Rightarrow> nat list" where
  "utf16 s = map of_char s"

text \<open>
  \<open>toLowerCase\<close> follows the case mappings of Unicode, which do not map character
  by character: the capital sigma has two small forms, chosen by its context (the rule
  Final Sigma of SpecialCasing). Two kinds of strings are mapped here by the rule
  itself.
  \<^item> An ASCII string (every code unit below 128): \<open>A\<close> to \<open>Z\<close> (65 to 90) are moved by
    32, every other code unit stays.
  \<^item> A string of the Greek letters capital alpha (913), small alpha (945), capital
    sigma (931), small sigma (963) and final small sigma (962): capital alpha becomes
    small alpha; capital sigma becomes the final small sigma when a letter stands
    before it and no letter after it, and the small sigma otherwise. In such a string
    every code unit is a letter, so the capital sigma is final when it stands last and
    not first.
  Every other string is mapped by the platform (\<open>unicode_toLowerCase\<close>).
\<close>

definition asciiString :: "nat list \<Rightarrow> bool" where
  "asciiString s = list_all (\<lambda>c. c < 128) s"

definition asciiLower :: "nat \<Rightarrow> nat" where
  "asciiLower c = (if 65 \<le> c \<and> c \<le> 90 then c + 32 else c)"

definition greekLetter :: "nat \<Rightarrow> bool" where
  "greekLetter c = List.member [913, 945, 931, 963, 962] c"

fun lowerGreek :: "bool \<Rightarrow> nat list \<Rightarrow> nat list" where
  "lowerGreek afterLetter [] = []"
| "lowerGreek afterLetter (c # cs) =
     (if c = 931 then (if afterLetter \<and> cs = [] then 962 else 963)
      else if c = 913 then 945
      else c) # lowerGreek True cs"

definition toLowerCase :: "('e, 'j) platform \<Rightarrow> nat list \<Rightarrow> nat list" where
  "toLowerCase pf s =
     (if asciiString s then map asciiLower s
      else if list_all greekLetter s then lowerGreek False s
      else unicode_toLowerCase pf s)"

subsection \<open>shouldEscalate\<close>

text \<open>
  \<^verbatim>\<open>
  export function shouldEscalate(message: string): boolean {
    const lowerMessage = message.toLowerCase();
    return agentConfig.escalationTriggers.some((trigger) =>
      lowerMessage.includes(trigger.toLowerCase())
    );
  }
  \<close>
  The trigger list is the configuration's; \<open>Array.prototype.some\<close> is \<open>list_ex\<close>.
\<close>

definition shouldEscalate :: "('e, 'j) platform \<Rightarrow> ('e, 'j) world \<Rightarrow> nat list \<Rightarrow> bool" where
  "shouldEscalate pf w message =
     (let lowerMessage = toLowerCase pf message
      in list_ex (\<lambda>trigger. str_includes lowerMessage (toLowerCase pf trigger))
           (escalationTriggers (agentConfig w)))"

subsection \<open>String.prototype.replace with the pattern of a template variable\<close>

text \<open>
  \<open>chat\<close> replaces with \<open>new RegExp(`\\{\\{${key}\\}\\}`, "g")\<close>: the key is put
  into the pattern as it is. When the key has none of the syntax characters of a
  regular expression, the pattern matches the literal string \<open>{{key}}\<close> and nothing
  else; \<open>literalKey\<close> tells these keys. For every other key the pattern is the
  engine's to read (\<open>RegExp_replace\<close> of the platform: it may throw a SyntaxError).
\<close>

definition syntaxCharacters :: "char list" where
  "syntaxCharacters =
     [CHR ''^'', CHR ''$'', CHR 0x5C, CHR ''.'', CHR ''*'', CHR ''+'', CHR ''?'',
      CHR ''('', CHR '')'', CHR ''['', CHR '']'', CHR ''{'', CHR ''}'', CHR ''|'']"

definition literalKey :: "string \<Rightarrow> bool" where
  "literalKey key = list_all (\<lambda>c. \<not> List.member syntaxCharacters c) key"

text \<open>
  The replacement string of \<open>replace\<close> is a template (GetSubstitution of ECMAScript):
  \<open>$$\<close> inserts one dollar sign, \<open>$&\<close> the matched text, \<open>$\<close> with a backquote (0x60)
  the text before the match, \<open>$\<close> with a quote (0x27) the text after it. The pattern of
  a literal key has no capture group, so \<open>$1\<close> and the like stay as they are, as every
  other character does.
\<close>

fun getSubstitution :: "string \<Rightarrow> string \<Rightarrow> string \<Rightarrow> string \<Rightarrow> string" where
  "getSubstitution matched preceding following [] = []"
| "getSubstitution matched preceding following [c] = [c]"
| "getSubstitution matched preceding following (c # d # rest) =
     (if c = CHR ''$'' \<and> d = CHR ''$''
      then CHR ''$'' # getSubstitution matched preceding following rest
      else if c = CHR ''$'' \<and> d = CHR ''&''
      then matched @ getSubstitution matched preceding following rest
      else if c = CHR ''$'' \<and> d = CHR 0x60
      then preceding @ getSubstitution matched preceding following rest
      else if c = CHR ''$'' \<and> d = CHR 0x27
      then following @ getSubstitution matched preceding following rest
      else c # getSubstitution matched preceding following (d # rest))"

text \<open>
  A global replace of the literal, non-empty string \<open>pat\<close>: the subject is read from
  the left, every match found is replaced by the expanded template and the search
  goes on after the match. \<open>preceding\<close> is the part of the subject already read.
\<close>

function replaceMatches :: "string \<Rightarrow> string \<Rightarrow> string \<Rightarrow> string \<Rightarrow> string" where
  "replaceMatches pat replacement preceding [] = []"
| "replaceMatches pat replacement preceding (c # cs) =
     (if pat \<noteq> [] \<and> startsWith pat (c # cs)
      then getSubstitution pat preceding (drop (length pat) (c # cs)) replacement
             @ replaceMatches pat replacement (preceding @ pat) (drop (length pat) (c # cs))
      else c # replaceMatches pat replacement (preceding @ [c]) cs)"
  by pat_completeness auto
termination
  by (relation "measure (\<lambda>(pat, replacement, preceding, rest). length rest)") auto

definition replaceTemplateVariable ::
  "('e, 'j) platform \<Rightarrow> string \<Rightarrow> string \<Rightarrow> string \<Rightarrow> 'e + string" where
  "replaceTemplateVariable pf key replacement subject =
     (if literalKey key
      then Inr (replaceMatches (''{{'' @ key @ ''}}'') replacement [] subject)
      else RegExp_replace pf
             ([CHR 0x5C, CHR ''{'', CHR 0x5C, CHR ''{''] @ key @
              [CHR 0x5C, CHR ''}'', CHR 0x5C, CHR ''}'']) replacement subject)"

subsection \<open>The client and its retries\<close>

text \<open>
  \<^verbatim>\<open>
  const anthropic = new Anthropic({
    apiKey: process.env.CLAUDE_API_KEY!,
  });
  \<close>
  The client is built with the API key only, so it keeps the SDK's default of two
  retries: a request that fails with an error the SDK holds retryable is sent again,
  at most twice, before \<open>anthropic.messages.create\<close> throws the error of the last
  request. \<open>sdk_request\<close> returns the outcome of the call and the number of requests
  it sent; \<open>retriesLeft\<close> counts down, \<open>n\<close> numbers the requests.
\<close>

definition maxRetries :: nat where
  "maxRetries = 2"

fun sdk_request ::
  "('e, 'j) platform \<Rightarrow> 'j MessageCreateParams \<Rightarrow> nat \<Rightarrow> nat \<Rightarrow> ('e + 'j Message) \<times> nat" where
  "sdk_request pf params 0 n = (http_post pf n params, 1)"
| "sdk_request pf params (Suc retriesLeft) n =
     (case http_post pf n params of
        Inr response \<Rightarrow> (Inr response, 1)
      | Inl error \<Rightarrow>
          if shouldRetry pf error
          then (case sdk_request pf params retriesLeft (Suc n) of
                  (outcome, sent) \<Rightarrow> (outcome, Suc sent))
          else (Inl error, 1))"

definition messages_create ::
  "('e, 'j) platform \<Rightarrow> 'j MessageCreateParams \<Rightarrow> 'e + 'j Message" where
  "messages_create pf params = fst (sdk_request pf params maxRetries 0)"

definition messages_create_requests ::
  "('e, 'j) platform \<Rightarrow> 'j MessageCreateParams \<Rightarrow> nat" where
  "messages_create_requests pf params = snd (sdk_request pf params maxRetries 0)"

subsection \<open>chat\<close>

text \<open>
  \<^verbatim>\<open>
  let systemPrompt = agentConfig.systemPrompt;
  if (clientContext) {
    Object.entries(clientContext).forEach(([key, value]) => {
      systemPrompt = systemPrompt.replace(
        new RegExp(`\\{\\{${key}\\}\\}`, "g"), String(value));
    });
  }
  \<close>
  The client context is the list of its entries, in the order of \<open>Object.entries\<close>;
  \<open>None\<close> is a context that was not given. An exception in the loop leaves \<open>chat\<close>: the
  loop stands before the \<open>try\<close>.
\<close>

type_synonym 'j ClientContext = "(string \<times> 'j) list"

fun chat_forEach ::
  "('e, 'j) platform \<Rightarrow> 'j ClientContext \<Rightarrow> string \<Rightarrow> 'e + string" where
  "chat_forEach pf [] prompt = Inr prompt"
| "chat_forEach pf ((key, val) # entries) prompt =
     (case replaceTemplateVariable pf key (String_of pf val) prompt of
        Inl e \<Rightarrow> Inl e
      | Inr prompt' \<Rightarrow> chat_forEach pf entries prompt')"

definition chat_systemPrompt ::
  "('e, 'j) platform \<Rightarrow> ('e, 'j) world \<Rightarrow> 'j ClientContext option \<Rightarrow> 'e + string" where
  "chat_systemPrompt pf w clientContext =
     (case clientContext of
        None \<Rightarrow> Inr (systemPrompt (agentConfig w))
      | Some entries \<Rightarrow> chat_forEach pf entries (systemPrompt (agentConfig w)))"

text \<open>
  \<^verbatim>\<open>
  const anthropicMessages = messages.map((msg) => ({
    role: msg.role as "user" | "assistant",
    content: msg.content,
  }));
  \<close>
\<close>

definition chat_anthropicMessages :: "'j ChatMessage list \<Rightarrow> 'j MessageParam list" where
  "chat_anthropicMessages messages =
     map (\<lambda>msg. \<lparr>mp_role = role msg, mp_content = content msg\<rparr>) messages"

text \<open>The argument of \<open>anthropic.messages.create\<close>.\<close>

definition chat_params ::
  "('e, 'j) world \<Rightarrow> string \<Rightarrow> 'j ChatMessage list \<Rightarrow> 'j MessageCreateParams" where
  "chat_params w prompt messages =
     \<lparr>p_model = model (agentConfig w),
      p_max_tokens = 1024,
      p_system = prompt,
      p_messages = chat_anthropicMessages messages,
      p_tools = (if length (tools w) > 0 then Some (tools w) else None)\<rparr>"

text \<open>
  \<^verbatim>\<open>
  const textContent = response.content.find((c) => c.type === "text");
  const content = textContent?.type === "text" ? textContent.text : "";
  const toolUseBlocks = response.content.filter((c) => c.type === "tool_use");
  const toolCalls = toolUseBlocks.map((block) => {
    if (block.type === "tool_use") {
      return { id: block.id, name: block.name, input: block.input };
    }
    return null;
  }).filter(Boolean) as ToolCall[];
  return {
    content,
    toolCalls: toolCalls.length > 0 ? toolCalls : undefined,
    stopReason: response.stop_reason as AgentResponse["stopReason"],
  };
  \<close>
  The cast of the stop reason is a type assertion: the string is returned as it came.
\<close>

fun isText :: "'j ContentBlock \<Rightarrow> bool" where
  "isText (TextBlock t) = True"
| "isText b = False"

fun isToolUse :: "'j ContentBlock \<Rightarrow> bool" where
  "isToolUse (ToolUseBlock i n x) = True"
| "isToolUse b = False"

fun toToolCall :: "'j ContentBlock \<Rightarrow> 'j ToolCall option" where
  "toToolCall (ToolUseBlock i n x) = Some \<lparr>tc_id = i, tc_name = n, tc_input = x\<rparr>"
| "toToolCall b = None"

definition chat_result :: "'j Message \<Rightarrow> 'j AgentResponse" where
  "chat_result response =
     (let textContent = find isText (m_content response);
          text_of_content = (case textContent of Some (TextBlock t) \<Rightarrow> t | _ \<Rightarrow> []);
          toolUseBlocks = filter isToolUse (m_content response);
          calls = List.map_filter (\<lambda>c. c) (map toToolCall toolUseBlocks)
      in \<lparr>ar_content = text_of_content,
          toolCalls = (if length calls > 0 then Some calls else None),
          stopReason = stop_reason response\<rparr>)"

text \<open>
  \<open>chat\<close> returns its result (\<open>Inl\<close>: the promise is rejected with that value), and
  with it the message list and the client context it was given and the state, as they
  are after the call. The one call of \<open>anthropic.messages.create\<close> leaves one entry
  in the log for each request it sent.
  \<^verbatim>\<open>
  try {
    const response = await anthropic.messages.create({ ... });
    ...
  } catch (error) {
    console.error("Claude API error:", error);
    throw error;
  }
  \<close>
\<close>

definition chat ::
  "('e, 'j) platform \<Rightarrow> 'j ChatMessage list \<Rightarrow> 'j ClientContext option \<Rightarrow> ('e, 'j) world \<Rightarrow>
     ('e + 'j AgentResponse) \<times> 'j ChatMessage list \<times> 'j ClientContext option \<times> ('e, 'j) world" where
  "chat pf messages clientContext w =
     (case chat_systemPrompt pf w clientContext of
        Inl e \<Rightarrow> (Inl e, messages, clientContext, w)
      | Inr prompt \<Rightarrow>
          (let params = chat_params w prompt messages;
               w1 = w\<lparr>effects := effects w @
                      replicate (messages_create_requests pf params) (MessagesCreate params)\<rparr>
           in case messages_create pf params of
                Inr response \<Rightarrow> (Inr (chat_result response), messages, clientContext, w1)
              | Inl error \<Rightarrow>
                  (Inl error, messages, clientContext,
                   w1\<lparr>effects := effects w1 @ [ConsoleError ''Claude API error:'' error]\<rparr>)))"

subsection \<open>executeTool and continueWithToolResult\<close>

text \<open>
  \<^verbatim>\<open>
  export async function executeTool(toolCall: ToolCall): Promise<unknown> {
    const { executeToolCall } = await import("@/agent/tools");
    return executeToolCall(toolCall.name, toolCall.input);
  }
  \<close>
\<close>

definition executeTool ::
  "('e, 'j) platform \<Rightarrow> 'j ToolCall \<Rightarrow> ('e, 'j) world \<Rightarrow> ('e + 'j) \<times> ('e, 'j) world" where
  "executeTool pf toolCall w =
     (executeToolCall pf (tc_name toolCall) (tc_input toolCall),
      w\<lparr>effects := effects w @ [ExecuteToolCall (tc_name toolCall) (tc_input toolCall)]\<rparr>)"

text \<open>
  \<^verbatim>\<open>
  const updatedMessages: any[] = [
    ...messages,
    { role: "assistant",
      content: [{ type: "tool_use", id: toolCall.id, name: toolCall.name,
                  input: toolCall.input }] },
    { role: "user",
      content: [{ type: "tool_result", tool_use_id: toolCall.id,
                  content: JSON.stringify(toolResult) }] },
  ];
  return chat(updatedMessages as ChatMessage[], clientContext);
  \<close>
  \<open>updatedMessages\<close> is a new array; the caller's \<open>messages\<close> is only read. The array
  is built before \<open>chat\<close> is called: when \<open>JSON.stringify(toolResult)\<close> throws, the call
  is rejected with that error and \<open>chat\<close> is not reached.
\<close>

definition updatedMessages ::
  "'j ChatMessage list \<Rightarrow> 'j ToolCall \<Rightarrow> string option \<Rightarrow> 'j ChatMessage list" where
  "updatedMessages messages toolCall serialized =
     messages @
     [\<lparr>role = Assistant,
       content = Blocks [ToolUse (tc_id toolCall) (tc_name toolCall) (tc_input toolCall)]\<rparr>,
      \<lparr>role = User,
       content = Blocks [ToolResult (tc_id toolCall) serialized]\<rparr>]"

definition continueWithToolResult ::
  "('e, 'j) platform \<Rightarrow> 'j ChatMessage list \<Rightarrow> 'j ToolCall \<Rightarrow> 'j \<Rightarrow> 'j ClientContext option \<Rightarrow>
     ('e, 'j) world \<Rightarrow>
     ('e + 'j AgentResponse) \<times> 'j ChatMessage list \<times> 'j ClientContext option \<times> ('e, 'j) world" where
  "continueWithToolResult pf messages toolCall toolResult clientContext w =
     (case JSON_stringify pf toolResult of
        Inl e \<Rightarrow> (Inl e, messages, clientContext, w)
      | Inr serialized \<Rightarrow>
          (case chat pf (updatedMessages messages toolCall serialized) clientContext w of
             (result, updated', clientContext', w') \<Rightarrow> (result, messages, clientContext', w')))"

subsection \<open>streamChat\<close>

text \<open>
  \<open>streamChat\<close> has the substitution loop and the conversion of the messages written
  out a second time, and passes \<open>model\<close>, \<open>max_tokens\<close>, \<open>system\<close> and \<open>messages\<close> to
  \<open>anthropic.messages.stream\<close>: no \<open>tools\<close> key.
  \<^verbatim>\<open>
  for await (const event of stream) {
    if (event.type === "content_block_delta" && event.delta.type === "text_delta") {
      yield event.delta.text;
    }
  }
  \<close>
  The generator is run to its end: the fragments it yields, in order, and the error
  that ended it, if one did. It has no \<open>try\<close>.
\<close>

fun streamChat_forEach ::
  "('e, 'j) platform \<Rightarrow> 'j ClientContext \<Rightarrow> string \<Rightarrow> 'e + string" where
  "streamChat_forEach pf [] prompt = Inr prompt"
| "streamChat_forEach pf ((key, val) # entries) prompt =
     (case replaceTemplateVariable pf key (String_of pf val) prompt of
        Inl e \<Rightarrow> Inl e
      | Inr prompt' \<Rightarrow> streamChat_forEach pf entries prompt')"

definition streamChat_systemPrompt ::
  "('e, 'j) platform \<Rightarrow> ('e, 'j) world \<Rightarrow> 'j ClientContext option \<Rightarrow> 'e + string" where
  "streamChat_systemPrompt pf w clientContext =
     (case clientContext of
        None \<Rightarrow> Inr (systemPrompt (agentConfig w))
      | Some entries \<Rightarrow> streamChat_forEach pf entries (systemPrompt (agentConfig w)))"

definition streamChat_params ::
  "('e, 'j) world \<Rightarrow> string \<Rightarrow> 'j ChatMessage list \<Rightarrow> 'j MessageCreateParams" where
  "streamChat_params w prompt messages =
     \<lparr>p_model = model (agentConfig w),
      p_max_tokens = 1024,
      p_system = prompt,
      p_messages = map (\<lambda>msg. \<lparr>mp_role = role msg, mp_content = content msg\<rparr>) messages,
      p_tools = None\<rparr>"

fun yielded :: "stream_event list \<Rightarrow> string list" where
  "yielded [] = []"
| "yielded (ContentBlockDelta (TextDelta t) # events) = t # yielded events"
| "yielded (event # events) = yielded events"

definition streamChat ::
  "('e, 'j) platform \<Rightarrow> 'j ChatMessage list \<Rightarrow> 'j ClientContext option \<Rightarrow> ('e, 'j) world \<Rightarrow>
     (string list \<times> 'e option) \<times> 'j ChatMessage list \<times> 'j ClientContext option \<times> ('e, 'j) world" where
  "streamChat pf messages clientContext w =
     (case streamChat_systemPrompt pf w clientContext of
        Inl e \<Rightarrow> (([], Some e), messages, clientContext, w)
      | Inr prompt \<Rightarrow>
          (let params = streamChat_params w prompt messages;
               w1 = w\<lparr>effects := effects w @ [MessagesStream params]\<rparr>
           in case messages_stream pf params of
                (events, failure) \<Rightarrow> ((yielded events, failure), messages, clientContext, w1)))"

subsection \<open>The specification's case-insensitive substring\<close>

text \<open>
  The specification's words, without a lower-casing function: two code units are the
  same letter up to case when they are equal, or one is an ASCII capital and the other
  its small letter; a trigger is a case-insensitive substring of the message when some
  contiguous part of the message has the trigger's length and agrees with it, code unit
  by code unit, up to case. (Outside ASCII only equal code units are taken as the same
  letter: an exact substring is a case-insensitive substring in every reading.)
\<close>

definition sameLetterIgnoringCase :: "nat \<Rightarrow> nat \<Rightarrow> bool" where
  "sameLetterIgnoringCase c d =
     (c = d \<or> (65 \<le> c \<and> c \<le> 90 \<and> d = c + 32) \<or> (65 \<le> d \<and> d \<le> 90 \<and> c = d + 32))"

definition caseInsensitiveSubstring :: "nat list \<Rightarrow> nat list \<Rightarrow> bool" where
  "caseInsensitiveSubstring t m =
     (\<exists>pre part post. m = pre @ part @ post \<and> list_all2 sameLetterIgnoringCase part t)"

subsection \<open>Reading the log\<close>

text \<open>The requests submitted to the backend, in order, by either method.\<close>

fun backendCalls :: "('e, 'j) effect list \<Rightarrow> 'j MessageCreateParams list" where
  "backendCalls [] = []"
| "backendCalls (MessagesCreate p # es) = p # backendCalls es"
| "backendCalls (MessagesStream p # es) = p # backendCalls es"
| "backendCalls (e # es) = backendCalls es"

text \<open>
  The stop reasons \<open>AgentResponse\<close> declares:
  \<^verbatim>\<open>stopReason: "end_turn" | "tool_use" | "max_tokens";\<close>
\<close>

definition stopReasons :: "string list" where
  "stopReasons = [''end_turn'', ''tool_use'', ''max_tokens'']"

subsection \<open>Onboarding persistence (lib/onboarding/persist.ts)\<close>

text \<open>
  \<^verbatim>\<open>
  export async function completeOnboarding(
    userId: string, flowId: string, allData: Record<string, any>
  ) {
    await supabase.from('agent_configurations').insert({
      user_id: userId, agent_type: flowId, configuration: allData,
      status: 'active', created_at: new Date().toISOString()
    });
    await fetch('/api/agents/provision', {
      method: 'POST',
      body: JSON.stringify({ userId, flowId, configuration: allData })
    });
  }
  \<close>
  The function reads no stored state. It calls the insert and awaits it: what the
  database answered is not looked at, and only a rejected await (the client throws on
  a row it cannot serialize) ends the function there. Then the body is serialized,
  which throws for data that \<open>JSON.stringify\<close> does not take (a BigInt, a cyclic
  structure); only then is the POST sent. A rejected \<open>fetch\<close> rejects the call after
  the POST. The clock, the errors of the insert and of the serialization and the
  network are the platform's; the POST is logged with the object its body serializes.
\<close>

record 'j AgentConfigurationRow =
  user_id :: string
  agent_type :: string
  configuration :: 'j
  status :: string
  created_at :: string

record 'j ProvisionBody =
  b_userId :: string
  b_flowId :: string
  b_configuration :: 'j

datatype 'j onboarding_effect =
    Insert string "'j AgentConfigurationRow" \<comment> \<open>the insert was called: table, row\<close>
  | Post string "'j ProvisionBody" \<comment> \<open>URL, the object serialized as the body\<close>

record ('e, 'j) onboarding_platform =
  toISOString_now :: string
  insert_rejected :: "'j AgentConfigurationRow \<Rightarrow> 'e option"
  stringify_thrown :: "'j ProvisionBody \<Rightarrow> 'e option"
  fetch_outcome :: "'e + unit"

definition completeOnboarding ::
  "('e, 'j) onboarding_platform \<Rightarrow> string \<Rightarrow> string \<Rightarrow> 'j \<Rightarrow> 'j onboarding_effect list \<Rightarrow>
     ('e + unit) \<times> 'j onboarding_effect list" where
  "completeOnboarding op userId flowId allData log =
     (let row = \<lparr>user_id = userId, agent_type = flowId, configuration = allData,
                 status = ''active'', created_at = toISOString_now op\<rparr>;
          log1 = log @ [Insert ''agent_configurations'' row]
      in case insert_rejected op row of
           Some e \<Rightarrow> (Inl e, log1)
         | None \<Rightarrow>
             (let body = \<lparr>b_userId = userId, b_flowId = flowId, b_configuration = allData\<rparr>
              in case stringify_thrown op body of
                   Some e \<Rightarrow> (Inl e, log1)
                 | None \<Rightarrow> (fetch_outcome op, log1 @ [Post ''/api/agents/provision'' body])))"

text \<open>
  \<open>reachesPost\<close>: with this platform, a request for this user, flow and data gets as
  far as the POST.
\<close>

definition reachesPost ::
  "string \<Rightarrow> string \<Rightarrow> 'j \<Rightarrow> ('e, 'j) onboarding_platform \<Rightarrow> bool" where
  "reachesPost userId flowId allData op =
     (insert_rejected op
        \<lparr>user_id = userId, agent_type = flowId, configuration = allData,
         status = ''active'', created_at = toISOString_now op\<rparr> = None \<and>
      stringify_thrown op
        \<lparr>b_userId = userId, b_flowId = flowId, b_configuration = allData\<rparr> = None)"

text \<open>
  Completion requested once per element of \<open>ops\<close>, for the same user, flow and data:
  the clock and the network of each request are its own.
\<close>

fun completeEach ::
  "('e, 'j) onboarding_platform list \<Rightarrow> string \<Rightarrow> string \<Rightarrow> 'j \<Rightarrow> 'j onboarding_effect list \<Rightarrow>
     'j onboarding_effect list" where
  "completeEach [] userId flowId allData log = log"
| "completeEach (op # ops) userId flowId allData log =
     completeEach ops userId flowId allData (snd (completeOnboarding op userId flowId allData log))"

text \<open>
  How often the log provisions the flow \<open>f\<close> of the user \<open>u\<close>, and how often it inserts
  an active configuration for them.
\<close>

fun provisionings :: "string \<Rightarrow> string \<Rightarrow> 'j onboarding_effect list \<Rightarrow> nat" where
  "provisionings u f [] = 0"
| "provisionings u f (Post url body # es) =
     (if url = ''/api/agents/provision'' \<and> b_userId body = u \<and> b_flowId body = f
      then Suc (provisionings u f es) else provisionings u f es)"
| "provisionings u f (e # es) = provisionings u f es"

fun configurationInserts :: "string \<Rightarrow> string \<Rightarrow> 'j onboarding_effect list \<Rightarrow> nat" where
  "configurationInserts u f [] = 0"
| "configurationInserts u f (Insert table row # es) =
     (if table = ''agent_configurations'' \<and> user_id row = u \<and> agent_type row = f \<and>
         status row = ''active''
      then Suc (configurationInserts u f es) else configurationInserts u f es)"
| "configurationInserts u f (e # es) = configurationInserts u f es"

subsection \<open>Example inputs\<close>

text \<open>
  A platform whose values are strings with no character to escape: \<open>String\<close> of a
  string is the string, \<open>JSON.stringify\<close> puts it between double quotes (0x22). Every request of a call
  has the outcome \<open>create\<close> gives; an error is an error type of the API or \<open>timeout\<close>,
  and the retryable ones are the timeout, the rate limit and the two server errors.
  The regular-expression engine and the platform's \<open>toLowerCase\<close> are never reached
  by the examples, whose keys are literal and whose strings are ASCII or Greek.
\<close>

definition examplePlatform ::
  "(string MessageCreateParams \<Rightarrow> string + string Message) \<Rightarrow> (string, string) platform" where
  "examplePlatform create =
     \<lparr>String_of = (\<lambda>v. v),
      JSON_stringify = (\<lambda>v. Inr (Some ([CHR 0x22] @ v @ [CHR 0x22]))),
      RegExp_replace = (\<lambda>pattern replacement subject. Inl ''SyntaxError''),
      unicode_toLowerCase = (\<lambda>s. s),
      http_post = (\<lambda>n. create),
      shouldRetry = (\<lambda>e. List.member
        [''timeout'', ''rate_limit_error'', ''api_error'', ''overloaded_error''] e),
      messages_stream = (\<lambda>params. ([], None)),
      executeToolCall = (\<lambda>n x. Inr x)\<rparr>"

text \<open>A backend that answers every request with one text block.\<close>

definition answering :: "string MessageCreateParams \<Rightarrow> string + string Message" where
  "answering params = Inr \<lparr>m_content = [TextBlock ''ok''], stop_reason = ''end_turn''\<rparr>"

definition exampleWorld :: "(string, string) world" where
  "exampleWorld =
     \<lparr>agentConfig =
        \<lparr>systemPrompt = ''You assist {{company_name}}. Budget: {{budget}}'',
         model = ''claude-sonnet-4-20250514'',
         escalationTriggers = [utf16 ''manager'', utf16 ''lawsuit'']\<rparr>,
      toolDefinitions =
        [\<lparr>name = ''lookup'', description = ''Look a record up'', input_schema = ''{}''\<rparr>],
      effects = []\<rparr>"

definition exampleMessages :: "string ChatMessage list" where
  "exampleMessages = [\<lparr>role = User, content = Text ''hello''\<rparr>]"

definition exampleToolCall :: "string ToolCall" where
  "exampleToolCall = \<lparr>tc_id = ''toolu_1'', tc_name = ''lookup'', tc_input = ''{id: 42}''\<rparr>"

text \<open>
  The configuration with the one trigger capital sigma, and a platform of the
  onboarding helpers on which the insert resolves, the body serializes and the
  \<open>fetch\<close> resolves.
\<close>

definition sigmaWorld :: "(string, string) world" where
  "sigmaWorld = exampleWorld\<lparr>agentConfig := (agentConfig exampleWorld)\<lparr>escalationTriggers := [[931]]\<rparr>\<rparr>"

definition exampleOnboarding :: "string \<Rightarrow> (string, string) onboarding_platform" where
  "exampleOnboarding now =
     \<lparr>toISOString_now = now,
      insert_rejected = (\<lambda>row. None),
      stringify_thrown = (\<lambda>body. None),
      fetch_outcome = Inr ()\<rparr>"

text \<open>
  A platform whose values are strings and BigInts (a BigInt is held by its digits):
  \<open>String\<close> of a BigInt is its digits, \<open>JSON.stringify\<close> of a BigInt throws a
  TypeError. Its backend answers every request.
\<close>

datatype example_value = JsString string | JsBigInt string

definition valuePlatform :: "(string, example_value) platform" where
  "valuePlatform =
     \<lparr>String_of = (\<lambda>v. case v of JsString s \<Rightarrow> s | JsBigInt digits \<Rightarrow> digits),
      JSON_stringify = (\<lambda>v. case v of
          JsString s \<Rightarrow> Inr (Some ([CHR 0x22] @ s @ [CHR 0x22]))
        | JsBigInt digits \<Rightarrow> Inl ''TypeError: Do not know how to serialize a BigInt''),
      RegExp_replace = (\<lambda>pattern replacement subject. Inl ''SyntaxError''),
      unicode_toLowerCase = (\<lambda>s. s),
      http_post = (\<lambda>n params. Inr \<lparr>m_content = [TextBlock ''ok''], stop_reason = ''end_turn''\<rparr>),
      shouldRetry = (\<lambda>e. List.member
        [''timeout'', ''rate_limit_error'', ''api_error'', ''overloaded_error''] e),
      messages_stream = (\<lambda>params. ([], None)),
      executeToolCall = (\<lambda>n x. Inr x)\<rparr>"

definition valueWorld :: "(string, example_value) world" where
  "valueWorld =
     \<lparr>agentConfig =
        \<lparr>systemPrompt = ''You count records.'',
         model = ''claude-sonnet-4-20250514'',
         escalationTriggers = []\<rparr>,
      toolDefinitions = [],
      effects = []\<rparr>"

definition valueMessages :: "example_value ChatMessage list" where
  "valueMessages = [\<lparr>role = User, content = Text ''how many?''\<rparr>]"

definition valueToolCall :: "example_value ToolCall" where
  "valueToolCall = \<lparr>tc_id = ''toolu_2'', tc_name = ''count'', tc_input = JsString ''{}''\<rparr>"

definition exampleStream :: "stream_event list" where
  "exampleStream =
     [OtherEvent ''message_start'', ContentBlockDelta (TextDelta ''Hel''),
      ContentBlockDelta (OtherDelta ''input_json_delta''), ContentBlockDelta (TextDelta ''lo''),
      OtherEvent ''message_stop'']"

section \<open>Properties\<close>

subsection \<open>Strings\<close>

lemma startsWith_iff: "startsWith p s \<longleftrightarrow> (\<exists>r. s = p @ r)"
  by (induction p s rule: startsWith.induct) auto

lemma str_includes_iff: "str_includes s t \<longleftrightarrow> (\<exists>pre post. s = pre @ t @ post)"
proof (induction s)
  case Nil
  then show ?case by (auto simp: startsWith_iff)
next
  case (Cons c cs)
  show ?case
  proof
    assume "str_includes (c # cs) t"
    then consider "startsWith t (c # cs)" | "str_includes cs t" by auto
    then show "\<exists>pre post. c # cs = pre @ t @ post"
    proof cases
      case 1
      then obtain r where "c # cs = t @ r" by (auto simp: startsWith_iff)
      then have "c # cs = [] @ t @ r" by simp
      then show ?thesis by blast
    next
      case 2
      then obtain b a where "cs = b @ t @ a" using Cons.IH by blast
      then have "c # cs = (c # b) @ t @ a" by simp
      then show ?thesis by blast
    qed
  next
    assume "\<exists>pre post. c # cs = pre @ t @ post"
    then obtain b a where eq: "c # cs = b @ t @ a" by blast
    show "str_includes (c # cs) t"
    proof (cases b)
      case Nil
      with eq have "startsWith t (c # cs)" by (auto simp: startsWith_iff)
      then show ?thesis by simp
    next
      case (Cons b1 bs)
      with eq have "cs = bs @ t @ a" by simp
      then have "str_includes cs t" using Cons.IH by blast
      then show ?thesis by simp
    qed
  qed
qed

lemma map_eq_sandwich:
  assumes "map f m = b @ t @ a"
  shows "\<exists>b' t' a'. m = b' @ t' @ a' \<and> map f b' = b \<and> map f t' = t \<and> map f a' = a"
proof -
  from assms obtain b' r where m: "m = b' @ r" and b: "b = map f b'" and r: "t @ a = map f r"
    using map_eq_append_conv [of f m b "t @ a"] by blast
  from r obtain t' a' where "r = t' @ a'" "t = map f t'" "a = map f a'"
    using append_eq_map_conv [of t a f r] by blast
  with m b show ?thesis
    by blast
qed

subsection \<open>C8: shouldEscalate tests the lower-cased strings\<close>

text \<open>
  Lower-casing ASCII code units identifies exactly the code units that are the same
  letter up to case.
\<close>

lemma asciiLower_eq_iff: "asciiLower c = asciiLower d \<longleftrightarrow> sameLetterIgnoringCase c d"
  by (auto simp: asciiLower_def sameLetterIgnoringCase_def)

lemma map_asciiLower_eq_iff:
  "map asciiLower xs = map asciiLower ys \<longleftrightarrow> list_all2 sameLetterIgnoringCase xs ys"
proof -
  have "list_all2 sameLetterIgnoringCase xs ys \<longleftrightarrow>
      list_all2 (\<lambda>c d. asciiLower c = asciiLower d) xs ys"
    by (simp add: asciiLower_eq_iff)
  also have "\<dots> \<longleftrightarrow> list_all2 (=) (map asciiLower xs) (map asciiLower ys)"
    by (simp add: list_all2_map1 list_all2_map2)
  also have "\<dots> \<longleftrightarrow> map asciiLower xs = map asciiLower ys"
    by (simp add: list_all2_eq)
  finally show ?thesis by simp
qed

lemma toLowerCase_ascii: "asciiString s \<Longrightarrow> toLowerCase pf s = map asciiLower s"
  by (simp add: toLowerCase_def)

lemma ascii_includes_iff:
  "str_includes (map asciiLower m) (map asciiLower t) \<longleftrightarrow> caseInsensitiveSubstring t m"
proof
  assume "str_includes (map asciiLower m) (map asciiLower t)"
  then obtain b a where "map asciiLower m = b @ map asciiLower t @ a"
    by (auto simp: str_includes_iff)
  then obtain b' t' a' where "m = b' @ t' @ a'" "map asciiLower t' = map asciiLower t"
    using map_eq_sandwich [of asciiLower m b "map asciiLower t" a] by blast
  then show "caseInsensitiveSubstring t m"
    unfolding caseInsensitiveSubstring_def map_asciiLower_eq_iff by blast
next
  assume "caseInsensitiveSubstring t m"
  then obtain b p a where m: "m = b @ p @ a" and eq: "map asciiLower p = map asciiLower t"
    unfolding caseInsensitiveSubstring_def map_asciiLower_eq_iff by blast
  have "map asciiLower m = map asciiLower b @ map asciiLower t @ map asciiLower a"
    using m eq by simp
  then show "str_includes (map asciiLower m) (map asciiLower t)"
    unfolding str_includes_iff by blast
qed

text \<open>
  C8, as the code has it. \<open>shouldEscalate\<close> is a pure predicate (it reads the
  configuration and the message, and its model has no log): it returns true if and
  only if, for some trigger of the configuration, the lower-cased trigger occurs in the
  lower-cased message. When the message and the triggers are ASCII strings, this is the
  case if and only if some trigger is a case-insensitive substring of the message.
\<close>

theorem shouldEscalate_iff_lowered_trigger_occurs:
  "(shouldEscalate pf w m \<longleftrightarrow>
      (\<exists>t pre post. t \<in> set (escalationTriggers (agentConfig w)) \<and>
         toLowerCase pf m = pre @ toLowerCase pf t @ post)) \<and>
   (asciiString m \<and> list_all asciiString (escalationTriggers (agentConfig w)) \<longrightarrow>
      (shouldEscalate pf w m \<longleftrightarrow>
         (\<exists>t. t \<in> set (escalationTriggers (agentConfig w)) \<and> caseInsensitiveSubstring t m)))"
proof -
  have general: "shouldEscalate pf w m \<longleftrightarrow>
      (\<exists>t pre post. t \<in> set (escalationTriggers (agentConfig w)) \<and>
         toLowerCase pf m = pre @ toLowerCase pf t @ post)"
    unfolding shouldEscalate_def Let_def list_ex_iff str_includes_iff by blast
  have ascii: "shouldEscalate pf w m \<longleftrightarrow>
         (\<exists>t. t \<in> set (escalationTriggers (agentConfig w)) \<and> caseInsensitiveSubstring t m)"
    if m: "asciiString m" and ts: "list_all asciiString (escalationTriggers (agentConfig w))"
  proof -
    have "str_includes (toLowerCase pf m) (toLowerCase pf t) \<longleftrightarrow> caseInsensitiveSubstring t m"
      if "t \<in> set (escalationTriggers (agentConfig w))" for t
    proof -
      from that ts have "asciiString t" by (simp add: list_all_iff)
      with m show ?thesis by (simp add: toLowerCase_ascii ascii_includes_iff)
    qed
    then show ?thesis
      unfolding shouldEscalate_def Let_def list_ex_iff by blast
  qed
  from general ascii show ?thesis by blast
qed

text \<open>
  With the triggers \<open>manager\<close> and \<open>lawsuit\<close>: a message that asks for a Manager has a
  trigger as a case-insensitive substring, and \<open>just checking in\<close> has none.
\<close>

theorem shouldEscalate_iff_lowered_trigger_occurs_witness:
  "(\<exists>t. t \<in> set [utf16 ''manager'', utf16 ''lawsuit''] \<and>
        caseInsensitiveSubstring t (utf16 ''I want to speak to a Manager'')) \<and>
   \<not> (\<exists>t. t \<in> set [utf16 ''manager'', utf16 ''lawsuit''] \<and>
        caseInsensitiveSubstring t (utf16 ''just checking in''))"
proof -
  let ?pf = "examplePlatform answering"
  have t: "escalationTriggers (agentConfig exampleWorld) = [utf16 ''manager'', utf16 ''lawsuit'']"
    by (simp add: exampleWorld_def)
  have a: "list_all asciiString (escalationTriggers (agentConfig exampleWorld))"
    unfolding t by (simp add: asciiString_def utf16_def)
  have m1: "asciiString (utf16 ''I want to speak to a Manager'')"
    by (simp add: asciiString_def utf16_def)
  have m2: "asciiString (utf16 ''just checking in'')"
    by (simp add: asciiString_def utf16_def)
  have "shouldEscalate ?pf exampleWorld (utf16 ''I want to speak to a Manager'')"
    by code_simp
  moreover have "\<not> shouldEscalate ?pf exampleWorld (utf16 ''just checking in'')"
    by code_simp
  ultimately show ?thesis
    using shouldEscalate_iff_lowered_trigger_occurs [of ?pf exampleWorld "utf16 ''I want to speak to a Manager''"]
      shouldEscalate_iff_lowered_trigger_occurs [of ?pf exampleWorld "utf16 ''just checking in''"]
      a m1 m2
    unfolding t by blast
qed

text \<open>
  The claim as it was stated, for every message string, fails outside ASCII. The
  trigger is the capital sigma and the message is capital alpha, capital sigma: the
  trigger is a substring of the message as it stands. \<open>toLowerCase\<close> makes the message
  small alpha, final small sigma (962) and the trigger the small sigma (963), so
  \<open>shouldEscalate\<close> returns false.
\<close>

theorem shouldEscalate_misses_final_sigma:
  "\<not> shouldEscalate (examplePlatform answering) sigmaWorld [913, 931] \<and>
   ([913, 931] :: nat list) = [913] @ [931] @ [] \<and>
   caseInsensitiveSubstring [931] [913, 931]"
proof -
  have "\<not> shouldEscalate (examplePlatform answering) sigmaWorld [913, 931]"
    by (simp add: shouldEscalate_def sigmaWorld_def exampleWorld_def toLowerCase_def
        asciiString_def greekLetter_def)
  moreover have "caseInsensitiveSubstring [931] [913, 931]"
  proof -
    have "[913, 931] = [913] @ [931] @ ([] :: nat list)" by simp
    moreover have "list_all2 sameLetterIgnoringCase [931] [931]"
      by (simp add: sameLetterIgnoringCase_def)
    ultimately show ?thesis
      unfolding caseInsensitiveSubstring_def by blast
  qed
  ultimately show ?thesis by simp
qed

subsection \<open>One call of anthropic.messages.create\<close>

lemma sdk_request_sent_eq:
  "sdk_request pf params r n = (out, k) \<Longrightarrow> 1 \<le> k \<and> k \<le> Suc r"
  by (induction r arbitrary: n out k) (auto split: sum.splits prod.splits if_splits)

lemma sdk_request_last_eq:
  "sdk_request pf params r n = (out, k) \<Longrightarrow> out = http_post pf (n + k - 1) params"
proof (induction r arbitrary: n out k)
  case 0
  then show ?case by auto
next
  case (Suc r)
  show ?case
  proof (cases "http_post pf n params")
    case (Inr response)
    with Suc.prems show ?thesis by auto
  next
    case (Inl error)
    show ?thesis
    proof (cases "shouldRetry pf error")
      case False
      with Inl Suc.prems show ?thesis by auto
    next
      case True
      obtain out' k' where r: "sdk_request pf params r (Suc n) = (out', k')"
        by (cases "sdk_request pf params r (Suc n)")
      with Inl True Suc.prems have "out = out'" "k = Suc k'" by auto
      moreover from Suc.IH [OF r] have "out' = http_post pf (Suc n + k' - 1) params" .
      moreover from sdk_request_sent_eq [OF r] have "1 \<le> k'" by simp
      ultimately show ?thesis by simp
    qed
  qed
qed

lemma sdk_request_earlier_eq:
  "sdk_request pf params r n = (out, k) \<Longrightarrow> i < k - 1 \<Longrightarrow>
     \<exists>e. http_post pf (n + i) params = Inl e \<and> shouldRetry pf e"
proof (induction r arbitrary: n out k i)
  case 0
  then show ?case by auto
next
  case (Suc r)
  show ?case
  proof (cases "http_post pf n params")
    case (Inr response)
    with Suc.prems show ?thesis by auto
  next
    case (Inl error)
    show ?thesis
    proof (cases "shouldRetry pf error")
      case False
      with Inl Suc.prems show ?thesis by auto
    next
      case True
      obtain out' k' where r: "sdk_request pf params r (Suc n) = (out', k')"
        by (cases "sdk_request pf params r (Suc n)")
      with Inl True Suc.prems have k: "k = Suc k'" by auto
      show ?thesis
      proof (cases i)
        case 0
        with Inl True show ?thesis by simp
      next
        case (Suc j)
        with k Suc.prems have "j < k' - 1" by simp
        from Suc.IH [OF r this] Suc show ?thesis by simp
      qed
    qed
  qed
qed

lemma sdk_request_stops_early_eq:
  "sdk_request pf params r n = (Inl err, k) \<Longrightarrow> k < Suc r \<Longrightarrow> \<not> shouldRetry pf err"
proof (induction r arbitrary: n k)
  case 0
  then show ?case by auto
next
  case (Suc r)
  show ?case
  proof (cases "http_post pf n params")
    case (Inr response)
    with Suc.prems show ?thesis by auto
  next
    case (Inl error)
    show ?thesis
    proof (cases "shouldRetry pf error")
      case False
      with Inl Suc.prems show ?thesis by auto
    next
      case True
      obtain out' k' where r: "sdk_request pf params r (Suc n) = (out', k')"
        by (cases "sdk_request pf params r (Suc n)")
      with Inl True Suc.prems have "out' = Inl err" "k = Suc k'" by auto
      with r Suc.prems Suc.IH [of "Suc n" k'] show ?thesis by simp
    qed
  qed
qed

text \<open>
  One call of \<open>anthropic.messages.create\<close>: it sends between one and three requests;
  its outcome is the outcome of the last request; every request before the last
  failed with a retryable error; and when it throws after fewer than three requests,
  the error is not retryable.
\<close>

lemma messages_create_requests:
  "1 \<le> messages_create_requests pf params \<and> messages_create_requests pf params \<le> 3 \<and>
   messages_create pf params = http_post pf (messages_create_requests pf params - 1) params \<and>
   (\<forall>i < messages_create_requests pf params - 1.
      \<exists>e. http_post pf i params = Inl e \<and> shouldRetry pf e) \<and>
   (\<forall>err. messages_create pf params = Inl err \<and> messages_create_requests pf params < 3 \<longrightarrow>
      \<not> shouldRetry pf err)"
proof -
  obtain out k where r: "sdk_request pf params maxRetries 0 = (out, k)"
    by (cases "sdk_request pf params maxRetries 0")
  then have mc: "messages_create pf params = out" "messages_create_requests pf params = k"
    by (simp_all add: messages_create_def messages_create_requests_def)
  from sdk_request_sent_eq [OF r] have "1 \<le> k" "k \<le> 3" by (simp_all add: maxRetries_def)
  moreover from sdk_request_last_eq [OF r] have "out = http_post pf (k - 1) params" by simp
  moreover from sdk_request_earlier_eq [OF r]
  have "\<forall>i < k - 1. \<exists>e. http_post pf i params = Inl e \<and> shouldRetry pf e" by simp
  moreover have "\<not> shouldRetry pf err" if "out = Inl err" "k < 3" for err
    using sdk_request_stops_early_eq [of pf params maxRetries 0 err k] r that
    by (simp add: maxRetries_def)
  ultimately show ?thesis unfolding mc by blast
qed

lemma messages_create_requests_bounds:
  "1 \<le> messages_create_requests pf params \<and> messages_create_requests pf params \<le> 3"
  using messages_create_requests [of pf params] by blast

lemma messages_create_first_answer:
  "http_post pf 0 params = Inr response \<Longrightarrow>
     messages_create pf params = Inr response \<and> messages_create_requests pf params = 1"
  by (simp add: messages_create_def messages_create_requests_def maxRetries_def numeral_2_eq_2)

lemma messages_create_first_not_retryable:
  "http_post pf 0 params = Inl e \<Longrightarrow> \<not> shouldRetry pf e \<Longrightarrow>
     messages_create pf params = Inl e \<and> messages_create_requests pf params = 1"
  by (simp add: messages_create_def messages_create_requests_def maxRetries_def numeral_2_eq_2)

subsection \<open>The three ways a call of chat ends\<close>

lemma chat_thrown_before_try:
  "chat_systemPrompt pf w clientContext = Inl e \<Longrightarrow>
   chat pf messages clientContext w = (Inl e, messages, clientContext, w)"
  by (simp add: chat_def)

lemma chat_success:
  "chat_systemPrompt pf w clientContext = Inr prompt \<Longrightarrow>
   messages_create pf (chat_params w prompt messages) = Inr response \<Longrightarrow>
   chat pf messages clientContext w =
     (Inr (chat_result response), messages, clientContext,
      w\<lparr>effects := effects w @
           replicate (messages_create_requests pf (chat_params w prompt messages))
             (MessagesCreate (chat_params w prompt messages))\<rparr>)"
  by (simp add: chat_def Let_def)

lemma chat_failure:
  "chat_systemPrompt pf w clientContext = Inr prompt \<Longrightarrow>
   messages_create pf (chat_params w prompt messages) = Inl err \<Longrightarrow>
   chat pf messages clientContext w =
     (Inl err, messages, clientContext,
      w\<lparr>effects := effects w @
           replicate (messages_create_requests pf (chat_params w prompt messages))
             (MessagesCreate (chat_params w prompt messages)) @
           [ConsoleError ''Claude API error:'' err]\<rparr>)"
  by (simp add: chat_def Let_def)

lemma chat_systemPrompt_no_context:
  "chat_systemPrompt pf w None = Inr (systemPrompt (agentConfig w))"
  by (simp add: chat_systemPrompt_def)

lemma replicate_first: "1 \<le> k \<Longrightarrow> replicate k x = x # replicate (k - 1) x"
  by (cases k) simp_all

lemma backendCalls_append: "backendCalls (xs @ ys) = backendCalls xs @ backendCalls ys"
  by (induction xs rule: backendCalls.induct) auto

lemma backendCalls_replicate:
  "backendCalls (replicate k (MessagesCreate p)) = replicate k p"
  by (induction k) simp_all

lemma chat_first_effect:
  assumes "chat_systemPrompt pf w clientContext = Inr prompt"
  shows "\<exists>rest. effects (snd (snd (snd (chat pf messages clientContext w)))) =
           effects w @ MessagesCreate (chat_params w prompt messages) # rest \<and>
           set (backendCalls rest) \<subseteq> {chat_params w prompt messages}"
proof -
  let ?p = "chat_params w prompt messages"
  let ?k = "messages_create_requests pf ?p"
  have k: "replicate ?k (MessagesCreate ?p) = MessagesCreate ?p # replicate (?k - 1) (MessagesCreate ?p)"
    using messages_create_requests_bounds [of pf ?p] by (simp add: replicate_first)
  show ?thesis
  proof (cases "messages_create pf ?p")
    case (Inl err)
    have "effects (snd (snd (snd (chat pf messages clientContext w)))) =
        effects w @ MessagesCreate ?p #
          (replicate (?k - 1) (MessagesCreate ?p) @ [ConsoleError ''Claude API error:'' err])"
      using assms Inl k by (simp add: chat_failure)
    moreover have "set (backendCalls
        (replicate (?k - 1) (MessagesCreate ?p) @ [ConsoleError ''Claude API error:'' err])) \<subseteq> {?p}"
      by (auto simp: backendCalls_append backendCalls_replicate)
    ultimately show ?thesis by blast
  next
    case (Inr response)
    have "effects (snd (snd (snd (chat pf messages clientContext w)))) =
        effects w @ MessagesCreate ?p # replicate (?k - 1) (MessagesCreate ?p)"
      using assms Inr k by (simp add: chat_success)
    moreover have "set (backendCalls (replicate (?k - 1) (MessagesCreate ?p))) \<subseteq> {?p}"
      by (auto simp: backendCalls_replicate)
    ultimately show ?thesis by blast
  qed
qed

text \<open>Calls on the example platform, every request of which has the same outcome.\<close>

lemma example_not_retried:
  "create params = Inl e \<Longrightarrow> \<not> List.member [''timeout'', ''rate_limit_error'', ''api_error'', ''overloaded_error''] e \<Longrightarrow>
   messages_create (examplePlatform create) params = Inl e \<and>
   messages_create_requests (examplePlatform create) params = 1"
  by (rule messages_create_first_not_retryable) (simp_all add: examplePlatform_def)

lemma example_answer:
  "create params = Inr response \<Longrightarrow>
   messages_create (examplePlatform create) params = Inr response \<and>
   messages_create_requests (examplePlatform create) params = 1"
  by (rule messages_create_first_answer) (simp add: examplePlatform_def)

lemma example_timeout:
  "messages_create (examplePlatform (\<lambda>p. Inl ''timeout'')) params = Inl ''timeout'' \<and>
   messages_create_requests (examplePlatform (\<lambda>p. Inl ''timeout'')) params = 3"
  by (simp add: messages_create_def messages_create_requests_def maxRetries_def
      numeral_2_eq_2 examplePlatform_def)

subsection \<open>C10: the content is the first text block\<close>

lemma find_first:
  "\<forall>b\<in>set pre. \<not> P b \<Longrightarrow> P x \<Longrightarrow> find P (pre @ x # post) = Some x"
  by (induction pre) auto

lemma find_none: "\<forall>b\<in>set xs. \<not> P b \<Longrightarrow> find P xs = None"
  by (induction xs) auto

lemma chat_result_content_first:
  "\<forall>b\<in>set pre. \<not> isText b \<Longrightarrow> m_content response = pre @ TextBlock t # post \<Longrightarrow>
     ar_content (chat_result response) = t"
  by (simp add: chat_result_def Let_def find_first)

lemma chat_result_content_none:
  "\<forall>b\<in>set (m_content response). \<not> isText b \<Longrightarrow> ar_content (chat_result response) = []"
  by (simp add: chat_result_def Let_def find_none)

text \<open>
  C10. When the backend answers, the content \<open>chat\<close> returns is the text of the first
  text block of the response: the empty string when the response has no text block,
  and the text of the first one whatever follows it, so that the text blocks after the
  first never reach the caller.
\<close>

theorem chat_content_is_first_text_block:
  assumes "chat_systemPrompt pf w clientContext = Inr prompt"
    and "messages_create pf (chat_params w prompt messages) = Inr response"
  shows "\<exists>r. fst (chat pf messages clientContext w) = Inr r \<and>
           ((\<forall>b\<in>set (m_content response). \<not> isText b) \<longrightarrow> ar_content r = []) \<and>
           (\<forall>pre t post. m_content response = pre @ TextBlock t # post \<and>
              (\<forall>b\<in>set pre. \<not> isText b) \<longrightarrow> ar_content r = t)"
proof -
  have "fst (chat pf messages clientContext w) = Inr (chat_result response)"
    using assms by (simp add: chat_success)
  moreover have "(\<forall>b\<in>set (m_content response). \<not> isText b) \<longrightarrow>
      ar_content (chat_result response) = []"
    by (simp add: chat_result_content_none)
  moreover have "\<forall>pre t post. m_content response = pre @ TextBlock t # post \<and>
      (\<forall>b\<in>set pre. \<not> isText b) \<longrightarrow> ar_content (chat_result response) = t"
    using chat_result_content_first by blast
  ultimately show ?thesis by blast
qed

text \<open>
  The backend answers a tool-use block and the text blocks \<open>one\<close> and \<open>two\<close>: the content
  is \<open>one\<close>.
\<close>

theorem chat_content_is_first_text_block_witness:
  "\<exists>r. fst (chat (examplePlatform (\<lambda>p. Inr \<lparr>m_content =
              [ToolUseBlock ''t1'' ''lookup'' ''{}'', TextBlock ''one'', TextBlock ''two''],
              stop_reason = ''end_turn''\<rparr>))
       exampleMessages None exampleWorld) = Inr r \<and> ar_content r = ''one''"
proof -
  let ?resp = "\<lparr>m_content =
      [ToolUseBlock ''t1'' ''lookup'' ''{}'', TextBlock ''one'', TextBlock ''two''],
      stop_reason = ''end_turn''\<rparr> :: string Message"
  let ?pf = "examplePlatform (\<lambda>p. Inr ?resp)"
  have 1: "chat_systemPrompt ?pf exampleWorld None = Inr (systemPrompt (agentConfig exampleWorld))"
    by (rule chat_systemPrompt_no_context)
  have 2: "messages_create ?pf
      (chat_params exampleWorld (systemPrompt (agentConfig exampleWorld)) exampleMessages) = Inr ?resp"
    by (simp add: messages_create_first_answer examplePlatform_def)
  have 3: "m_content ?resp =
        [ToolUseBlock ''t1'' ''lookup'' ''{}''] @ TextBlock ''one'' # [TextBlock ''two''] \<and>
      (\<forall>b\<in>set [ToolUseBlock ''t1'' ''lookup'' ''{}'' :: string ContentBlock]. \<not> isText b)"
    by simp
  from chat_content_is_first_text_block [OF 1 2] 3 show ?thesis
    by blast
qed

subsection \<open>C6: a backend error is rethrown as it is; the client re-sends what is retryable\<close>

text \<open>
  C6, as the code has it. When the call of the backend fails with \<open>err\<close>, \<open>chat\<close> is
  rejected with \<open>err\<close> itself, which is the error of the last request sent. \<open>chat\<close> has
  no retry of its own, but its client re-sends a request that failed with a retryable
  error: the log holds the same request once, twice or three times, every request but
  the last failed with a retryable error, and fewer than three were sent only when
  \<open>err\<close> is not retryable. The message list, the client context, the configuration and
  the tool definitions are as they were; after the requests, the one thing done before
  the rethrow is the \<open>console.error\<close> line.
\<close>

theorem chat_backend_error_propagates:
  assumes "chat_systemPrompt pf w clientContext = Inr prompt"
    and "messages_create pf (chat_params w prompt messages) = Inl err"
  shows "\<exists>k. 1 \<le> k \<and> k \<le> 3 \<and>
           chat pf messages clientContext w =
             (Inl err, messages, clientContext,
              w\<lparr>effects := effects w @
                   replicate k (MessagesCreate (chat_params w prompt messages)) @
                   [ConsoleError ''Claude API error:'' err]\<rparr>) \<and>
           http_post pf (k - 1) (chat_params w prompt messages) = Inl err \<and>
           (\<forall>i < k - 1. \<exists>e. http_post pf i (chat_params w prompt messages) = Inl e \<and>
              shouldRetry pf e) \<and>
           (k < 3 \<longrightarrow> \<not> shouldRetry pf err)"
proof -
  let ?p = "chat_params w prompt messages"
  let ?k = "messages_create_requests pf ?p"
  from messages_create_requests [of pf ?p] assms(2)
  have "1 \<le> ?k" "?k \<le> 3" "http_post pf (?k - 1) ?p = Inl err"
    "\<forall>i < ?k - 1. \<exists>e. http_post pf i ?p = Inl e \<and> shouldRetry pf e"
    "?k < 3 \<longrightarrow> \<not> shouldRetry pf err"
    by auto
  moreover have "chat pf messages clientContext w =
      (Inl err, messages, clientContext,
       w\<lparr>effects := effects w @ replicate ?k (MessagesCreate ?p) @
            [ConsoleError ''Claude API error:'' err]\<rparr>)"
    using assms by (simp add: chat_failure)
  ultimately show ?thesis by blast
qed

text \<open>
  The backend refuses the API key: one request (the error is not retryable), then the
  console line.
\<close>

theorem chat_backend_error_propagates_witness:
  "\<exists>k. 1 \<le> k \<and> k \<le> 3 \<and>
     chat (examplePlatform (\<lambda>p. Inl ''authentication_error'')) exampleMessages None exampleWorld =
       (Inl ''authentication_error'', exampleMessages, None,
        exampleWorld\<lparr>effects := effects exampleWorld @
          replicate k (MessagesCreate
            (chat_params exampleWorld (systemPrompt (agentConfig exampleWorld)) exampleMessages)) @
          [ConsoleError ''Claude API error:'' ''authentication_error'']\<rparr>)"
proof -
  let ?pf = "examplePlatform (\<lambda>p. Inl ''authentication_error'')"
  have 1: "chat_systemPrompt ?pf exampleWorld None = Inr (systemPrompt (agentConfig exampleWorld))"
    by (rule chat_systemPrompt_no_context)
  have 2: "messages_create ?pf
      (chat_params exampleWorld (systemPrompt (agentConfig exampleWorld)) exampleMessages) =
      Inl ''authentication_error''"
    by (simp add: example_not_retried)
  from chat_backend_error_propagates [OF 1 2] show ?thesis
    by blast
qed

text \<open>
  The claim as it was stated, the backend invoked at most once per call, fails when
  the backend times out: one call of \<open>chat\<close> sends the request three times.
\<close>

theorem chat_resends_after_retryable_error:
  "backendCalls (effects (snd (snd (snd
     (chat (examplePlatform (\<lambda>p. Inl ''timeout'')) exampleMessages None exampleWorld))))) =
     [\<lparr>p_model = ''claude-sonnet-4-20250514'', p_max_tokens = 1024,
       p_system = ''You assist {{company_name}}. Budget: {{budget}}'',
       p_messages = [\<lparr>mp_role = User, mp_content = Text ''hello''\<rparr>],
       p_tools = Some [\<lparr>name = ''lookup'', description = ''Look a record up'',
                       input_schema = ''{}''\<rparr>]\<rparr>,
      \<lparr>p_model = ''claude-sonnet-4-20250514'', p_max_tokens = 1024,
       p_system = ''You assist {{company_name}}. Budget: {{budget}}'',
       p_messages = [\<lparr>mp_role = User, mp_content = Text ''hello''\<rparr>],
       p_tools = Some [\<lparr>name = ''lookup'', description = ''Look a record up'',
                       input_schema = ''{}''\<rparr>]\<rparr>,
      \<lparr>p_model = ''claude-sonnet-4-20250514'', p_max_tokens = 1024,
       p_system = ''You assist {{company_name}}. Budget: {{budget}}'',
       p_messages = [\<lparr>mp_role = User, mp_content = Text ''hello''\<rparr>],
       p_tools = Some [\<lparr>name = ''lookup'', description = ''Look a record up'',
                       input_schema = ''{}''\<rparr>]\<rparr>]"
  by (simp add: chat_def Let_def chat_systemPrompt_def example_timeout numeral_3_eq_3
      chat_params_def chat_anthropicMessages_def tools_def exampleWorld_def exampleMessages_def)

subsection \<open>C9: chat leaves its inputs alone; its effects are its requests and, on failure, a log line\<close>

text \<open>
  C9, as the code has it. Every call of \<open>chat\<close> returns the message list and the
  client context it was given, unchanged, and leaves the configuration and the tool
  definitions unchanged. What it adds to the log of effects is nothing (when the
  substitution threw, before any request), or the requests of its one call of the
  backend, one to three times the same request (when the backend answered), or these
  requests followed by one \<open>console.error\<close> line carrying the error (when the backend
  failed).
\<close>

theorem chat_inputs_unchanged:
  "\<exists>result w'. chat pf messages clientContext w = (result, messages, clientContext, w') \<and>
     agentConfig w' = agentConfig w \<and> toolDefinitions w' = toolDefinitions w \<and>
     (\<exists>new. effects w' = effects w @ new \<and>
        ((new = [] \<and> isl result) \<or>
         (\<exists>p k r. 1 \<le> k \<and> k \<le> 3 \<and> new = replicate k (MessagesCreate p) \<and> result = Inr r) \<or>
         (\<exists>p k e. 1 \<le> k \<and> k \<le> 3 \<and>
            new = replicate k (MessagesCreate p) @ [ConsoleError ''Claude API error:'' e] \<and>
            result = Inl e)))"
proof (cases "chat_systemPrompt pf w clientContext")
  case (Inl e)
  then show ?thesis by (simp add: chat_thrown_before_try)
next
  case (Inr prompt)
  let ?p = "chat_params w prompt messages"
  note k = messages_create_requests_bounds [of pf ?p]
  show ?thesis
  proof (cases "messages_create pf ?p")
    case (Inl err)
    with Inr have "chat pf messages clientContext w =
        (Inl err, messages, clientContext,
         w\<lparr>effects := effects w @ replicate (messages_create_requests pf ?p) (MessagesCreate ?p) @
            [ConsoleError ''Claude API error:'' err]\<rparr>)"
      by (simp add: chat_failure)
    with k show ?thesis by auto
  next
    case r: (Inr response)
    with Inr have "chat pf messages clientContext w =
        (Inr (chat_result response), messages, clientContext,
         w\<lparr>effects := effects w @ replicate (messages_create_requests pf ?p) (MessagesCreate ?p)\<rparr>)"
      by (simp add: chat_success)
    with k show ?thesis by auto
  qed
qed

theorem chat_inputs_unchanged_witness:
  "\<exists>result w'. chat (examplePlatform (\<lambda>p. Inl ''timeout'')) exampleMessages None exampleWorld =
       (result, exampleMessages, None, w') \<and>
     agentConfig w' = agentConfig exampleWorld \<and> toolDefinitions w' = toolDefinitions exampleWorld"
  using chat_inputs_unchanged
    [of "examplePlatform (\<lambda>p. Inl ''timeout'')" exampleMessages None exampleWorld]
  by blast

text \<open>
  The claim as it was stated, no side effect other than the single network call, fails
  when the backend times out: the log then holds the request three times and a console
  line.
\<close>

theorem chat_failure_writes_console_line:
  "effects (snd (snd (snd
     (chat (examplePlatform (\<lambda>p. Inl ''timeout'')) exampleMessages None exampleWorld)))) =
     [MessagesCreate
        \<lparr>p_model = ''claude-sonnet-4-20250514'', p_max_tokens = 1024,
         p_system = ''You assist {{company_name}}. Budget: {{budget}}'',
         p_messages = [\<lparr>mp_role = User, mp_content = Text ''hello''\<rparr>],
         p_tools = Some [\<lparr>name = ''lookup'', description = ''Look a record up'',
                         input_schema = ''{}''\<rparr>]\<rparr>,
      MessagesCreate
        \<lparr>p_model = ''claude-sonnet-4-20250514'', p_max_tokens = 1024,
         p_system = ''You assist {{company_name}}. Budget: {{budget}}'',
         p_messages = [\<lparr>mp_role = User, mp_content = Text ''hello''\<rparr>],
         p_tools = Some [\<lparr>name = ''lookup'', description = ''Look a record up'',
                         input_schema = ''{}''\<rparr>]\<rparr>,
      MessagesCreate
        \<lparr>p_model = ''claude-sonnet-4-20250514'', p_max_tokens = 1024,
         p_system = ''You assist {{company_name}}. Budget: {{budget}}'',
         p_messages = [\<lparr>mp_role = User, mp_content = Text ''hello''\<rparr>],
         p_tools = Some [\<lparr>name = ''lookup'', description = ''Look a record up'',
                         input_schema = ''{}''\<rparr>]\<rparr>,
      ConsoleError ''Claude API error:'' ''timeout'']"
  by (simp add: chat_def Let_def chat_systemPrompt_def example_timeout numeral_3_eq_3
      chat_params_def chat_anthropicMessages_def tools_def exampleWorld_def exampleMessages_def)

subsection \<open>C5: the empty message list is submitted like any other\<close>

text \<open>
  C5, as the code has it. \<open>chat\<close> does not look at the length of the message list. For
  the empty list it submits a request whose \<open>messages\<close> is empty, and it resolves or is
  rejected as the backend answers that request.
\<close>

theorem chat_empty_list_is_submitted:
  assumes "chat_systemPrompt pf w clientContext = Inr prompt"
  shows "\<exists>rest. effects (snd (snd (snd (chat pf [] clientContext w)))) =
             effects w @ MessagesCreate (chat_params w prompt []) # rest \<and>
           p_messages (chat_params w prompt []) = [] \<and>
           fst (chat pf [] clientContext w) =
             map_sum (\<lambda>e. e) chat_result (messages_create pf (chat_params w prompt []))"
proof -
  from chat_first_effect [OF assms, of "[]"] obtain rest where
    "effects (snd (snd (snd (chat pf [] clientContext w)))) =
       effects w @ MessagesCreate (chat_params w prompt []) # rest"
    by blast
  moreover have "p_messages (chat_params w prompt []) = []"
    by (simp add: chat_params_def chat_anthropicMessages_def)
  moreover have "fst (chat pf [] clientContext w) =
      map_sum (\<lambda>e. e) chat_result (messages_create pf (chat_params w prompt []))"
    using assms
    by (cases "messages_create pf (chat_params w prompt [])")
      (simp_all add: chat_failure chat_success)
  ultimately show ?thesis by blast
qed

theorem chat_empty_list_is_submitted_witness:
  "\<exists>rest. effects (snd (snd (snd
       (chat (examplePlatform (\<lambda>p. Inl ''invalid_request_error'')) [] None exampleWorld)))) =
      effects exampleWorld @
      MessagesCreate (chat_params exampleWorld (systemPrompt (agentConfig exampleWorld)) []) # rest \<and>
    fst (chat (examplePlatform (\<lambda>p. Inl ''invalid_request_error'')) [] None exampleWorld) =
      Inl ''invalid_request_error''"
proof -
  let ?pf = "examplePlatform (\<lambda>p. Inl ''invalid_request_error'')"
  have 1: "chat_systemPrompt ?pf exampleWorld None = Inr (systemPrompt (agentConfig exampleWorld))"
    by (rule chat_systemPrompt_no_context)
  have 2: "messages_create ?pf (chat_params exampleWorld (systemPrompt (agentConfig exampleWorld)) [])
      = Inl ''invalid_request_error''"
    by (simp add: example_not_retried)
  from chat_empty_list_is_submitted [OF 1] show ?thesis
    unfolding 2 by simp
qed

text \<open>
  The claim as it was stated, an error before any request, fails: with a backend that
  refuses an empty message list, the request with the empty list is in the log, and the
  error is the backend's.
\<close>

theorem chat_submits_empty_list:
  "chat (examplePlatform (\<lambda>p. if p_messages p = [] then Inl ''invalid_request_error''
                               else Inr \<lparr>m_content = [TextBlock ''hi''], stop_reason = ''end_turn''\<rparr>))
     [] None exampleWorld =
   (Inl ''invalid_request_error'', [], None,
    exampleWorld\<lparr>effects :=
      [MessagesCreate
         \<lparr>p_model = ''claude-sonnet-4-20250514'', p_max_tokens = 1024,
          p_system = ''You assist {{company_name}}. Budget: {{budget}}'',
          p_messages = [],
          p_tools = Some [\<lparr>name = ''lookup'', description = ''Look a record up'',
                          input_schema = ''{}''\<rparr>]\<rparr>,
       ConsoleError ''Claude API error:'' ''invalid_request_error'']\<rparr>)"
proof -
  let ?create = "\<lambda>p :: string MessageCreateParams. if p_messages p = [] then Inl ''invalid_request_error''
      else Inr \<lparr>m_content = [TextBlock ''hi''], stop_reason = ''end_turn''\<rparr>"
  let ?p = "chat_params exampleWorld (systemPrompt (agentConfig exampleWorld)) []"
  have "?create ?p = Inl ''invalid_request_error''"
    by (simp add: chat_params_def chat_anthropicMessages_def)
  then have "messages_create (examplePlatform ?create) ?p = Inl ''invalid_request_error'' \<and>
      messages_create_requests (examplePlatform ?create) ?p = 1"
    by (rule example_not_retried) simp
  then show ?thesis
    by (simp add: chat_def Let_def chat_systemPrompt_def)
      (simp add: chat_params_def chat_anthropicMessages_def tools_def exampleWorld_def)
qed

subsection \<open>C7: tool calls are returned as they came; the stop reason is not checked\<close>

lemma map_filter_toToolCall:
  "List.map_filter (\<lambda>c. c) (map toToolCall (filter isToolUse blocks)) =
     List.map_filter toToolCall blocks"
proof (induction blocks)
  case Nil
  show ?case by (simp add: List.map_filter_simps)
next
  case (Cons b blocks)
  then show ?case by (cases b) (simp_all add: List.map_filter_simps)
qed

text \<open>
  The tool calls of the result are the tool-use blocks of the response, each with its
  id, name and input, in the order of the response (\<open>undefined\<close> when there is none).
\<close>

lemma chat_result_toolCalls:
  "toolCalls (chat_result response) =
     (if List.map_filter toToolCall (m_content response) = [] then None
      else Some (List.map_filter toToolCall (m_content response)))"
  by (simp add: chat_result_def Let_def map_filter_toToolCall)

lemma chat_result_stopReason: "stopReason (chat_result response) = stop_reason response"
  by (simp add: chat_result_def Let_def)

text \<open>\<open>chat\<close> executes no tool: the tool executions of the log are those it found.\<close>

lemma chat_executes_no_tool:
  "ExecuteToolCall n x \<in> set (effects (snd (snd (snd (chat pf messages clientContext w))))) \<longleftrightarrow>
   ExecuteToolCall n x \<in> set (effects w)"
proof (cases "chat_systemPrompt pf w clientContext")
  case (Inl e)
  then show ?thesis by (simp add: chat_thrown_before_try)
next
  case (Inr prompt)
  then show ?thesis
    by (cases "messages_create pf (chat_params w prompt messages)")
      (auto simp: chat_failure chat_success)
qed

text \<open>
  C7, at the input where the code leaves it. The backend answers with the stop reason
  \<open>refusal\<close>; \<open>chat\<close> returns that string as the stop reason of its result, and it is
  none of \<open>end_turn\<close>, \<open>tool_use\<close>, \<open>max_tokens\<close>.
\<close>

theorem chat_returns_stop_reason_refusal:
  "fst (chat (examplePlatform (\<lambda>p. Inr \<lparr>m_content = [TextBlock ''I cannot help with that.''],
                                         stop_reason = ''refusal''\<rparr>))
          exampleMessages None exampleWorld) =
     Inr \<lparr>ar_content = ''I cannot help with that.'', toolCalls = None, stopReason = ''refusal''\<rparr> \<and>
   ''refusal'' \<notin> set stopReasons"
  by (simp add: chat_def Let_def chat_systemPrompt_def example_answer chat_result_def stopReasons_def)

subsection \<open>C1: the value of a template variable is read as a replacement template\<close>

text \<open>
  A replacement without a dollar sign is inserted as it is, and a subject in which the
  pattern does not occur is left as it is.
\<close>

lemma getSubstitution_no_dollar:
  "CHR ''$'' \<notin> set replacement \<Longrightarrow>
     getSubstitution matched preceding following replacement = replacement"
  by (induction matched preceding following replacement rule: getSubstitution.induct) auto

lemma replaceMatches_no_match:
  "\<not> str_includes subject pat \<Longrightarrow> replaceMatches pat replacement preceding subject = subject"
  by (induction pat replacement preceding subject rule: replaceMatches.induct) auto

text \<open>
  C1, at the input where the code leaves it. The template is
  \<open>You assist {{company_name}}. Budget: {{budget}}\<close> and the client context gives
  \<open>Acme\<close> for \<open>company_name\<close> and \<open>$$\<close> for \<open>budget\<close>. The prompt \<open>chat\<close> renders and
  submits ends in one dollar sign: \<open>replace\<close> reads \<open>$$\<close> as the template of one.
\<close>

theorem chat_renders_dollar_pair_as_one_dollar:
  "chat_systemPrompt (examplePlatform answering) exampleWorld
     (Some [(''company_name'', ''Acme''), (''budget'', ''$$'')]) =
     Inr ''You assist Acme. Budget: $'' \<and>
   backendCalls (effects (snd (snd (snd
     (chat (examplePlatform answering) exampleMessages
        (Some [(''company_name'', ''Acme''), (''budget'', ''$$'')]) exampleWorld))))) =
     [\<lparr>p_model = ''claude-sonnet-4-20250514'', p_max_tokens = 1024,
       p_system = ''You assist Acme. Budget: $'',
       p_messages = [\<lparr>mp_role = User, mp_content = Text ''hello''\<rparr>],
       p_tools = Some [\<lparr>name = ''lookup'', description = ''Look a record up'',
                       input_schema = ''{}''\<rparr>]\<rparr>]"
proof -
  have p: "chat_systemPrompt (examplePlatform answering) exampleWorld
     (Some [(''company_name'', ''Acme''), (''budget'', ''$$'')]) = Inr ''You assist Acme. Budget: $''"
    by (simp add: chat_systemPrompt_def examplePlatform_def exampleWorld_def
      replaceTemplateVariable_def literalKey_def syntaxCharacters_def)
  have a: "messages_create (examplePlatform answering) params =
        Inr \<lparr>m_content = [TextBlock ''ok''], stop_reason = ''end_turn''\<rparr> \<and>
      messages_create_requests (examplePlatform answering) params = 1" for params
    by (rule example_answer) (simp add: answering_def)
  show ?thesis
    unfolding chat_def p
    by (simp add: Let_def a chat_params_def chat_anthropicMessages_def tools_def
      exampleWorld_def exampleMessages_def)
qed

subsection \<open>C3: continueWithToolResult is chat on the history extended by the tool round trip\<close>

text \<open>
  C3, as the code has it. When \<open>JSON.stringify\<close> serializes the tool result,
  \<open>continueWithToolResult\<close> resolves or is rejected as \<open>chat\<close> is on the messages
  followed by the assistant message with the tool-use block of the call and the user
  message with the tool-result block of the same id, whose content is the serialized
  result; it has the effects of that call and leaves the caller's message list as it
  was. When the system prompt resolves, the request it submits is the first effect
  and every request in the log is that request, and its \<open>messages\<close> are the converted
  messages followed by exactly these two, the tool call right before the tool result.
  When \<open>JSON.stringify\<close> throws, the call is rejected with that error, and nothing is
  submitted.
\<close>

theorem continueWithToolResult_extends_history:
  "(\<forall>serialized. JSON_stringify pf toolResult = Inr serialized \<longrightarrow>
      fst (continueWithToolResult pf messages toolCall toolResult clientContext w) =
        fst (chat pf (messages @
               [\<lparr>role = Assistant,
                 content = Blocks [ToolUse (tc_id toolCall) (tc_name toolCall) (tc_input toolCall)]\<rparr>,
                \<lparr>role = User,
                 content = Blocks [ToolResult (tc_id toolCall) serialized]\<rparr>])
             clientContext w) \<and>
      snd (snd (snd (continueWithToolResult pf messages toolCall toolResult clientContext w))) =
        snd (snd (snd (chat pf (messages @
               [\<lparr>role = Assistant,
                 content = Blocks [ToolUse (tc_id toolCall) (tc_name toolCall) (tc_input toolCall)]\<rparr>,
                \<lparr>role = User,
                 content = Blocks [ToolResult (tc_id toolCall) serialized]\<rparr>])
             clientContext w))) \<and>
      fst (snd (continueWithToolResult pf messages toolCall toolResult clientContext w)) = messages \<and>
      (\<forall>prompt. chat_systemPrompt pf w clientContext = Inr prompt \<longrightarrow>
         (\<exists>params rest.
            effects (snd (snd (snd
              (continueWithToolResult pf messages toolCall toolResult clientContext w)))) =
              effects w @ MessagesCreate params # rest \<and>
            set (backendCalls rest) \<subseteq> {params} \<and>
            p_system params = prompt \<and>
            p_messages params =
              chat_anthropicMessages messages @
              [\<lparr>mp_role = Assistant,
                mp_content = Blocks [ToolUse (tc_id toolCall) (tc_name toolCall) (tc_input toolCall)]\<rparr>,
               \<lparr>mp_role = User,
                mp_content = Blocks [ToolResult (tc_id toolCall) serialized]\<rparr>]))) \<and>
   (\<forall>e. JSON_stringify pf toolResult = Inl e \<longrightarrow>
      continueWithToolResult pf messages toolCall toolResult clientContext w =
        (Inl e, messages, clientContext, w))"
proof -
  have thrown: "continueWithToolResult pf messages toolCall toolResult clientContext w =
        (Inl e, messages, clientContext, w)"
    if "JSON_stringify pf toolResult = Inl e" for e
    using that by (simp add: continueWithToolResult_def)
  have sent: "fst (continueWithToolResult pf messages toolCall toolResult clientContext w) =
        fst (chat pf (messages @
               [\<lparr>role = Assistant,
                 content = Blocks [ToolUse (tc_id toolCall) (tc_name toolCall) (tc_input toolCall)]\<rparr>,
                \<lparr>role = User,
                 content = Blocks [ToolResult (tc_id toolCall) serialized]\<rparr>])
             clientContext w) \<and>
      snd (snd (snd (continueWithToolResult pf messages toolCall toolResult clientContext w))) =
        snd (snd (snd (chat pf (messages @
               [\<lparr>role = Assistant,
                 content = Blocks [ToolUse (tc_id toolCall) (tc_name toolCall) (tc_input toolCall)]\<rparr>,
                \<lparr>role = User,
                 content = Blocks [ToolResult (tc_id toolCall) serialized]\<rparr>])
             clientContext w))) \<and>
      fst (snd (continueWithToolResult pf messages toolCall toolResult clientContext w)) = messages \<and>
      (\<forall>prompt. chat_systemPrompt pf w clientContext = Inr prompt \<longrightarrow>
         (\<exists>params rest.
            effects (snd (snd (snd
              (continueWithToolResult pf messages toolCall toolResult clientContext w)))) =
              effects w @ MessagesCreate params # rest \<and>
            set (backendCalls rest) \<subseteq> {params} \<and>
            p_system params = prompt \<and>
            p_messages params =
              chat_anthropicMessages messages @
              [\<lparr>mp_role = Assistant,
                mp_content = Blocks [ToolUse (tc_id toolCall) (tc_name toolCall) (tc_input toolCall)]\<rparr>,
               \<lparr>mp_role = User,
                mp_content = Blocks [ToolResult (tc_id toolCall) serialized]\<rparr>]))"
    if s: "JSON_stringify pf toolResult = Inr serialized" for serialized
  proof -
    let ?ext = "updatedMessages messages toolCall serialized"
    have ext: "?ext = messages @
            [\<lparr>role = Assistant,
              content = Blocks [ToolUse (tc_id toolCall) (tc_name toolCall) (tc_input toolCall)]\<rparr>,
             \<lparr>role = User,
              content = Blocks [ToolResult (tc_id toolCall) serialized]\<rparr>]"
      by (simp add: updatedMessages_def)
    have c: "continueWithToolResult pf messages toolCall toolResult clientContext w =
        (fst (chat pf ?ext clientContext w), messages,
         fst (snd (snd (chat pf ?ext clientContext w))), snd (snd (snd (chat pf ?ext clientContext w))))"
      using s by (simp add: continueWithToolResult_def split: prod.splits)
    have req: "\<exists>params rest.
           effects (snd (snd (snd (chat pf ?ext clientContext w)))) =
             effects w @ MessagesCreate params # rest \<and>
           set (backendCalls rest) \<subseteq> {params} \<and>
           p_system params = prompt \<and>
           p_messages params = chat_anthropicMessages ?ext"
      if "chat_systemPrompt pf w clientContext = Inr prompt" for prompt
    proof -
      from chat_first_effect [OF that, of ?ext] obtain rest where
        "effects (snd (snd (snd (chat pf ?ext clientContext w)))) =
           effects w @ MessagesCreate (chat_params w prompt ?ext) # rest"
        "set (backendCalls rest) \<subseteq> {chat_params w prompt ?ext}"
        by blast
      moreover have "p_system (chat_params w prompt ?ext) = prompt"
        "p_messages (chat_params w prompt ?ext) = chat_anthropicMessages ?ext"
        by (simp_all add: chat_params_def)
      ultimately show ?thesis by blast
    qed
    have conv: "chat_anthropicMessages ?ext = chat_anthropicMessages messages @
             [\<lparr>mp_role = Assistant,
               mp_content = Blocks [ToolUse (tc_id toolCall) (tc_name toolCall) (tc_input toolCall)]\<rparr>,
              \<lparr>mp_role = User,
               mp_content = Blocks [ToolResult (tc_id toolCall) serialized]\<rparr>]"
      by (simp add: ext chat_anthropicMessages_def)
    show ?thesis
      unfolding c ext [symmetric] using req conv by simp
  qed
  from thrown sent show ?thesis by blast
qed

text \<open>
  After \<open>hello\<close>, the call \<open>toolu_1\<close> of \<open>lookup\<close> and its result \<open>found\<close>: the
  request holds the three messages in this order.
\<close>

theorem continueWithToolResult_extends_history_witness:
  "\<exists>params rest.
     effects (snd (snd (snd (continueWithToolResult (examplePlatform answering)
        exampleMessages exampleToolCall ''found'' None exampleWorld)))) = MessagesCreate params # rest \<and>
     p_messages params =
       [\<lparr>mp_role = User, mp_content = Text ''hello''\<rparr>,
        \<lparr>mp_role = Assistant, mp_content = Blocks [ToolUse ''toolu_1'' ''lookup'' ''{id: 42}'']\<rparr>,
        \<lparr>mp_role = User,
         mp_content = Blocks [ToolResult ''toolu_1''
           (Some [CHR 0x22, CHR ''f'', CHR ''o'', CHR ''u'', CHR ''n'', CHR ''d'', CHR 0x22])]\<rparr>]"
proof -
  let ?pf = "examplePlatform answering"
  let ?s = "Some [CHR 0x22, CHR ''f'', CHR ''o'', CHR ''u'', CHR ''n'', CHR ''d'', CHR 0x22]"
  have 1: "chat_systemPrompt ?pf exampleWorld None = Inr (systemPrompt (agentConfig exampleWorld))"
    by (rule chat_systemPrompt_no_context)
  have 2: "effects exampleWorld = []"
    by (simp add: exampleWorld_def)
  have 3: "chat_anthropicMessages exampleMessages = [\<lparr>mp_role = User, mp_content = Text ''hello''\<rparr>]"
    by (simp add: chat_anthropicMessages_def exampleMessages_def)
  have 4: "JSON_stringify ?pf ''found'' = Inr ?s"
    by (simp add: examplePlatform_def)
  have 5: "tc_id exampleToolCall = ''toolu_1''" "tc_name exampleToolCall = ''lookup''"
    "tc_input exampleToolCall = ''{id: 42}''"
    by (simp_all add: exampleToolCall_def)
  from continueWithToolResult_extends_history
    [of ?pf "''found''" exampleMessages exampleToolCall None exampleWorld] 1 4
  obtain params rest where
    "effects (snd (snd (snd (continueWithToolResult ?pf exampleMessages exampleToolCall
        ''found'' None exampleWorld)))) = effects exampleWorld @ MessagesCreate params # rest"
    "p_messages params =
       chat_anthropicMessages exampleMessages @
       [\<lparr>mp_role = Assistant,
         mp_content = Blocks [ToolUse (tc_id exampleToolCall) (tc_name exampleToolCall)
                                (tc_input exampleToolCall)]\<rparr>,
        \<lparr>mp_role = User,
         mp_content = Blocks [ToolResult (tc_id exampleToolCall) ?s]\<rparr>]"
    by blast
  then show ?thesis
    unfolding 2 3 5 by simp
qed

text \<open>
  The claim as it was stated, for every tool output, fails for an output that
  \<open>JSON.stringify\<close> does not take. The tool \<open>count\<close> returns the BigInt 10: the call is
  rejected with the TypeError and the log stays empty.
\<close>

theorem continueWithToolResult_rejects_unserializable_result:
  "continueWithToolResult valuePlatform valueMessages valueToolCall (JsBigInt ''10'') None
     valueWorld =
   (Inl ''TypeError: Do not know how to serialize a BigInt'', valueMessages, None, valueWorld) \<and>
   effects valueWorld = []"
  by (simp add: continueWithToolResult_def valuePlatform_def valueWorld_def)

subsection \<open>C4: streamChat submits the request of chat without the tools\<close>

lemma forEach_same:
  "streamChat_forEach pf entries prompt = chat_forEach pf entries prompt"
  by (induction pf entries prompt rule: chat_forEach.induct) (auto split: sum.splits)

lemma systemPrompt_same:
  "streamChat_systemPrompt pf w clientContext = chat_systemPrompt pf w clientContext"
  by (simp add: streamChat_systemPrompt_def chat_systemPrompt_def forEach_same split: option.splits)

lemma params_same_but_tools:
  "streamChat_params w prompt messages = (chat_params w prompt messages)\<lparr>p_tools := None\<rparr>"
  by (simp add: streamChat_params_def chat_params_def chat_anthropicMessages_def)

lemma yielded_text_deltas:
  "yielded events = [t. ContentBlockDelta (TextDelta t) \<leftarrow> events]"
  by (induction events rule: yielded.induct) auto

text \<open>
  C4, as the code has it. \<open>streamChat\<close> resolves the system prompt as \<open>chat\<close> does and
  converts the messages as \<open>chat\<close> does; its request is the request of \<open>chat\<close> with no
  \<open>tools\<close>, so the two requests are the same when no tool is defined. It submits that
  request to the streaming method and yields the texts of the text deltas of the
  content-block-delta events, in the order the backend sent them.
\<close>

theorem streamChat_request_is_chat_request_without_tools:
  "streamChat_systemPrompt pf w clientContext = chat_systemPrompt pf w clientContext \<and>
   streamChat_params w prompt messages = (chat_params w prompt messages)\<lparr>p_tools := None\<rparr> \<and>
   (toolDefinitions w = [] \<longrightarrow> streamChat_params w prompt messages = chat_params w prompt messages) \<and>
   (\<forall>events failure.
      chat_systemPrompt pf w clientContext = Inr prompt \<and>
      messages_stream pf ((chat_params w prompt messages)\<lparr>p_tools := None\<rparr>) = (events, failure) \<longrightarrow>
      streamChat pf messages clientContext w =
        (([t. ContentBlockDelta (TextDelta t) \<leftarrow> events], failure), messages, clientContext,
         w\<lparr>effects := effects w @
              [MessagesStream ((chat_params w prompt messages)\<lparr>p_tools := None\<rparr>)]\<rparr>))"
proof -
  have "streamChat_params w prompt messages = chat_params w prompt messages"
    if "toolDefinitions w = []"
    using that by (simp add: streamChat_params_def chat_params_def chat_anthropicMessages_def tools_def)
  moreover have "streamChat pf messages clientContext w =
        (([t. ContentBlockDelta (TextDelta t) \<leftarrow> events], failure), messages, clientContext,
         w\<lparr>effects := effects w @
              [MessagesStream ((chat_params w prompt messages)\<lparr>p_tools := None\<rparr>)]\<rparr>)"
    if "chat_systemPrompt pf w clientContext = Inr prompt"
      and "messages_stream pf ((chat_params w prompt messages)\<lparr>p_tools := None\<rparr>) = (events, failure)"
    for events failure
    using that
    by (simp add: streamChat_def systemPrompt_same params_same_but_tools yielded_text_deltas)
  ultimately show ?thesis
    using systemPrompt_same params_same_but_tools by blast
qed

text \<open>
  The backend streams \<open>Hel\<close> and \<open>lo\<close> between events of other types: the fragments
  are \<open>Hel\<close>, \<open>lo\<close>.
\<close>

theorem streamChat_request_is_chat_request_without_tools_witness:
  "fst (streamChat ((examplePlatform (\<lambda>p. Inl ''unused''))\<lparr>messages_stream := (\<lambda>p. (exampleStream, None))\<rparr>)
      exampleMessages None exampleWorld) = ([''Hel'', ''lo''], None)"
proof -
  let ?pf = "(examplePlatform (\<lambda>p. Inl ''unused''))\<lparr>messages_stream := (\<lambda>p. (exampleStream, None))\<rparr>"
  let ?prompt = "systemPrompt (agentConfig exampleWorld)"
  have 1: "chat_systemPrompt ?pf exampleWorld None = Inr ?prompt"
    by (rule chat_systemPrompt_no_context)
  have 2: "messages_stream ?pf ((chat_params exampleWorld ?prompt exampleMessages)\<lparr>p_tools := None\<rparr>) =
      (exampleStream, None)"
    by simp
  have 3: "[t. ContentBlockDelta (TextDelta t) \<leftarrow> exampleStream] = [''Hel'', ''lo'']"
    by (simp add: exampleStream_def)
  from streamChat_request_is_chat_request_without_tools
    [of ?pf exampleWorld None ?prompt exampleMessages] 1 2
  show ?thesis
    unfolding 3 [symmetric] by simp
qed

text \<open>
  The claim as it was stated, the same tool schema set, fails when a tool is defined:
  \<open>chat\<close> submits the tool \<open>lookup\<close>, \<open>streamChat\<close> submits no tools.
\<close>

theorem streamChat_omits_tools:
  "backendCalls (effects (snd (snd (snd (chat (examplePlatform answering) exampleMessages None exampleWorld))))) =
     [\<lparr>p_model = ''claude-sonnet-4-20250514'', p_max_tokens = 1024,
       p_system = ''You assist {{company_name}}. Budget: {{budget}}'',
       p_messages = [\<lparr>mp_role = User, mp_content = Text ''hello''\<rparr>],
       p_tools = Some [\<lparr>name = ''lookup'', description = ''Look a record up'', input_schema = ''{}''\<rparr>]\<rparr>] \<and>
   backendCalls (effects (snd (snd (snd (streamChat (examplePlatform answering) exampleMessages None exampleWorld))))) =
     [\<lparr>p_model = ''claude-sonnet-4-20250514'', p_max_tokens = 1024,
       p_system = ''You assist {{company_name}}. Budget: {{budget}}'',
       p_messages = [\<lparr>mp_role = User, mp_content = Text ''hello''\<rparr>],
       p_tools = None\<rparr>]"
proof -
  have a: "messages_create (examplePlatform answering) params =
        Inr \<lparr>m_content = [TextBlock ''ok''], stop_reason = ''end_turn''\<rparr> \<and>
      messages_create_requests (examplePlatform answering) params = 1" for params
    by (rule example_answer) (simp add: answering_def)
  have s: "messages_stream (examplePlatform answering) params = ([], None)" for params
    by (simp add: examplePlatform_def)
  show ?thesis
    by (simp add: chat_def Let_def chat_systemPrompt_def a s chat_params_def
      chat_anthropicMessages_def tools_def streamChat_def streamChat_systemPrompt_def
      streamChat_params_def exampleWorld_def exampleMessages_def)
qed

subsection \<open>C2: every completion request inserts, and provisions unless it throws first\<close>

lemma provisionings_append:
  "provisionings u f (xs @ ys) = provisionings u f xs + provisionings u f ys"
  by (induction u f xs rule: provisionings.induct) auto

lemma configurationInserts_append:
  "configurationInserts u f (xs @ ys) = configurationInserts u f xs + configurationInserts u f ys"
  by (induction u f xs rule: configurationInserts.induct) auto

lemma completeOnboarding_log:
  "snd (completeOnboarding op u f d log) =
     log @
     Insert ''agent_configurations''
       \<lparr>user_id = u, agent_type = f, configuration = d, status = ''active'',
        created_at = toISOString_now op\<rparr> #
     (if reachesPost u f d op
      then [Post ''/api/agents/provision'' \<lparr>b_userId = u, b_flowId = f, b_configuration = d\<rparr>]
      else [])"
  by (simp add: completeOnboarding_def reachesPost_def Let_def split: option.splits)

lemma completeOnboarding_counts:
  "provisionings u f (snd (completeOnboarding op u f d log)) =
     provisionings u f log + (if reachesPost u f d op then 1 else 0) \<and>
   configurationInserts u f (snd (completeOnboarding op u f d log)) = Suc (configurationInserts u f log)"
  by (simp add: completeOnboarding_log provisionings_append configurationInserts_append)

lemma completeEach_counts:
  "provisionings u f (completeEach ops u f d log) =
     provisionings u f log + length (filter (reachesPost u f d) ops) \<and>
   configurationInserts u f (completeEach ops u f d log) = configurationInserts u f log + length ops"
  by (induction ops arbitrary: log) (simp_all add: completeOnboarding_counts)

text \<open>
  C2, as the code has it. \<open>completeOnboarding\<close> does not look for an earlier
  completion: whatever the log already holds, a request calls the insert of a
  configuration with the status \<open>active\<close> for the user and the flow and after it,
  unless the awaited insert or the serialization of the body threw, sends the
  provisioning POST for the same user, flow and data. After as many requests as \<open>ops\<close> has elements the log
  holds that many more inserts, and one more provisioning for each request that got as
  far as the POST: that many more when none threw.
\<close>

theorem completeOnboarding_provisions_on_every_call:
  "snd (completeOnboarding op u f d log) =
     log @
     Insert ''agent_configurations''
       \<lparr>user_id = u, agent_type = f, configuration = d, status = ''active'',
        created_at = toISOString_now op\<rparr> #
     (if reachesPost u f d op
      then [Post ''/api/agents/provision'' \<lparr>b_userId = u, b_flowId = f, b_configuration = d\<rparr>]
      else []) \<and>
   provisionings u f (completeEach ops u f d log) =
     provisionings u f log + length (filter (reachesPost u f d) ops) \<and>
   configurationInserts u f (completeEach ops u f d log) = configurationInserts u f log + length ops \<and>
   (list_all (reachesPost u f d) ops \<longrightarrow>
      provisionings u f (completeEach ops u f d log) = provisionings u f log + length ops)"
proof -
  have "length (filter (reachesPost u f d) ops) = length ops"
    if "list_all (reachesPost u f d) ops"
    using that by (simp add: list_all_iff)
  then show ?thesis
    using completeOnboarding_log [of op u f d log] completeEach_counts [of u f ops d log]
    by simp
qed

theorem completeOnboarding_provisions_on_every_call_witness:
  "provisionings ''u1'' ''rfq''
     (completeEach [exampleOnboarding ''2025-01-01T00:00:00.000Z'',
                    exampleOnboarding ''2025-01-01T00:00:01.000Z'']
        ''u1'' ''rfq'' ''{}'' []) = 2"
proof -
  let ?ops = "[exampleOnboarding ''2025-01-01T00:00:00.000Z'',
               exampleOnboarding ''2025-01-01T00:00:01.000Z'']"
  have all: "list_all (reachesPost ''u1'' ''rfq'' ''{}'') ?ops"
    by (simp add: reachesPost_def exampleOnboarding_def)
  have "list_all (reachesPost ''u1'' ''rfq'' ''{}'') ?ops \<longrightarrow>
      provisionings ''u1'' ''rfq'' (completeEach ?ops ''u1'' ''rfq'' ''{}'' []) =
        provisionings ''u1'' ''rfq'' ([] :: string onboarding_effect list) + length ?ops"
    using completeOnboarding_provisions_on_every_call
      [where u = "''u1''" and f = "''rfq''" and d = "''{}''" and log = "[]" and
         op = "exampleOnboarding ''2025-01-01T00:00:00.000Z''" and ops = ?ops]
    by blast
  with all have "provisionings ''u1'' ''rfq'' (completeEach ?ops ''u1'' ''rfq'' ''{}'' []) =
      provisionings ''u1'' ''rfq'' ([] :: string onboarding_effect list) + length ?ops"
    by (rule rev_mp)
  then show ?thesis by simp
qed

text \<open>
  The claim as it was stated, one provisioning however often completion is requested,
  fails at the second request: the log holds two inserts and two provisioning POSTs.
\<close>

theorem completeOnboarding_twice_provisions_twice:
  "snd (completeOnboarding (exampleOnboarding ''2025-01-01T00:00:01.000Z'') ''u1'' ''rfq'' ''{}''
      (snd (completeOnboarding (exampleOnboarding ''2025-01-01T00:00:00.000Z'') ''u1'' ''rfq'' ''{}'' [])))
   = [Insert ''agent_configurations''
        \<lparr>user_id = ''u1'', agent_type = ''rfq'', configuration = ''{}'', status = ''active'',
         created_at = ''2025-01-01T00:00:00.000Z''\<rparr>,
      Post ''/api/agents/provision'' \<lparr>b_userId = ''u1'', b_flowId = ''rfq'', b_configuration = ''{}''\<rparr>,
      Insert ''agent_configurations''
        \<lparr>user_id = ''u1'', agent_type = ''rfq'', configuration = ''{}'', status = ''active'',
         created_at = ''2025-01-01T00:00:01.000Z''\<rparr>,
      Post ''/api/agents/provision'' \<lparr>b_userId = ''u1'', b_flowId = ''rfq'', b_configuration = ''{}''\<rparr>]"
  by (simp add: completeOnboarding_def exampleOnboarding_def)

end
